theory Spec2Isabelle
  imports Main "HOL-Library.Sublist"
begin

section \<open>JavaScript strings and numbers\<close>

text \<open>
  A JavaScript string is a sequence of UTF-16 code units; \<open>length\<close>, \<open>startsWith\<close>,
  \<open>trim\<close> and a regular expression without the \<open>u\<close> flag all work on code units. The
  model keeps a string as the list of its code units. String constants of the source are
  written \<open>js ''...''\<close>; a quote character that cannot stand inside an Isabelle literal is
  spliced in as its code unit (34 is the double quote, 39 the apostrophe, 10 the newline).
\<close>

type_synonym jsstring = "nat list"

definition js :: "string \<Rightarrow> jsstring" where
  "js s = map of_char s"

text \<open>The line terminators of ECMAScript: the characters the regular expression dot rejects.\<close>

definition isLineTerminator :: "nat \<Rightarrow> bool" where
  "isLineTerminator c \<longleftrightarrow> c = 10 \<or> c = 13 \<or> c = 8232 \<or> c = 8233"

text \<open>
  The code units \<open>String.prototype.trim\<close> strips: TAB, VT, FF, SP, NBSP, the Unicode space
  separators, the byte order mark, and the line terminators.
\<close>

definition isWhiteSpace :: "nat \<Rightarrow> bool" where
  "isWhiteSpace c \<longleftrightarrow>
     c = 9 \<or> c = 11 \<or> c = 12 \<or> c = 32 \<or> c = 160 \<or> c = 5760 \<or> (8192 \<le> c \<and> c \<le> 8202)
     \<or> c = 8239 \<or> c = 8287 \<or> c = 12288 \<or> c = 65279 \<or> isLineTerminator c"

definition trim :: "jsstring \<Rightarrow> jsstring" where
  "trim s = rev (dropWhile isWhiteSpace (rev (dropWhile isWhiteSpace s)))"

definition startsWith :: "jsstring \<Rightarrow> jsstring \<Rightarrow> bool" where
  "startsWith s p \<longleftrightarrow> prefix p s"

text \<open>\<open>a || b\<close> on strings: the empty string is the only falsy string.\<close>

definition orElse :: "jsstring \<Rightarrow> jsstring \<Rightarrow> jsstring" where
  "orElse a b = (if a \<noteq> [] then a else b)"

text \<open>
  The decimal rendering of a number in a template literal. Telegram identifiers and HTTP
  status codes are integers far below \<open>10^21\<close>, where JavaScript prints plain decimal digits.
\<close>

function digits :: "nat \<Rightarrow> jsstring" where
  "digits n = (if n < 10 then [48 + n] else digits (n div 10) @ [48 + n mod 10])"
  by pat_completeness auto
termination
  by (relation "measure id") auto

declare digits.simps [simp del]

definition numToString :: "int \<Rightarrow> jsstring" where
  "numToString i = (if i < 0 then 45 # digits (nat (- i)) else digits (nat i))"

text \<open>
  A JavaScript number that comes out of \<open>parseInt\<close>: an integer or \<open>NaN\<close>.
\<close>

datatype jsnumber = NaN | Num int

text \<open>An \<open>Error\<close> object, by the two properties the program reads.\<close>

datatype jserror = JsError (err_name: jsstring) (err_message: jsstring)


section \<open>JSON values\<close>

text \<open>
  What \<open>JSON.parse\<close> returns. A number is kept by the two observations the program makes
  of it: whether it is non-zero (its truthiness) and its \<open>String()\<close> rendering. An object
  is the list of its members, with distinct keys.
\<close>

datatype json =
    JNull
  | JBool bool
  | JNum bool jsstring
  | JStr jsstring
  | JArr "json list"
  | JObj "(jsstring \<times> json) list"

text \<open>A property read gives a JSON value or \<open>undefined\<close> (\<open>None\<close>).\<close>

fun truthy :: "json option \<Rightarrow> bool" where
  "truthy None = False"
| "truthy (Some JNull) = False"
| "truthy (Some (JBool b)) = b"
| "truthy (Some (JNum nonzero r)) = nonzero"
| "truthy (Some (JStr s)) = (s \<noteq> [])"
| "truthy (Some (JArr xs)) = True"
| "truthy (Some (JObj kvs)) = True"

text \<open>
  \<open>v.error\<close> and \<open>v.message\<close> on a value that is not \<open>null\<close>: an object answers with its
  member, and no string, number, boolean or array has a property of either name.
\<close>

fun getProp :: "json \<Rightarrow> jsstring \<Rightarrow> json option" where
  "getProp (JObj kvs) k = map_of kvs k"
| "getProp v k = None"

definition joinWith :: "jsstring \<Rightarrow> jsstring list \<Rightarrow> jsstring" where
  "joinWith sep xs = (case xs of [] \<Rightarrow> [] | y # ys \<Rightarrow> y @ concat (map (\<lambda>z. sep @ z) ys))"

text \<open>
  The string a template literal \<open>${v}\<close> inserts for a JSON value, or \<open>None\<close> when the
  conversion throws a \<open>TypeError\<close>. An object is converted through its \<open>toString\<close>
  property: the inherited one gives "[object Object]", while an own member of that name, never
  callable in parsed JSON, leaves no way to a primitive. An array joins the conversions of
  its elements with commas, \<open>null\<close> counting as the empty string, and throws when one of
  them does.
\<close>

fun toStr :: "json \<Rightarrow> jsstring option" where
  "toStr JNull = Some (js ''null'')"
| "toStr (JBool b) = Some (if b then js ''true'' else js ''false'')"
| "toStr (JNum nonzero r) = Some r"
| "toStr (JStr s) = Some s"
| "toStr (JArr xs) =
     map_option (joinWith [44]) (those (map (\<lambda>x. if x = JNull then Some [] else toStr x) xs))"
| "toStr (JObj kvs) =
     (if map_of kvs (js ''toString'') \<noteq> None then None else Some (js ''[object Object]''))"


section \<open>utils.js\<close>

text \<open>
  The helpers that \<open>bot.js\<close> imports from \<open>./utils\<close>.
  \<open>isAuthorized(userId, authorizedUserId)\<close>: false when the configured identity is \<open>NaN\<close>,
  otherwise strict equality. The configured identity is always of type number, being the
  result of \<open>parseInt\<close>.
\<close>

definition isAuthorized :: "int \<Rightarrow> jsnumber \<Rightarrow> bool" where
  "isAuthorized userId authorizedUserId =
     (case authorizedUserId of NaN \<Rightarrow> False | Num a \<Rightarrow> userId = a)"

text \<open>
  What the program does to the outside world: a Telegram send, a Telegram edit, or the HTTP
  POST of \<open>fetch\<close>. Console output is left out.
\<close>

record block =
  block_type :: jsstring
  block_text :: jsstring

datatype content = Flat jsstring | Blocks "block list"

record chat_message =
  role :: jsstring
  content :: content

record request =
  url :: jsstring
  authorization :: jsstring
  model :: jsstring
  messages :: "chat_message list"

datatype effect =
    BotSendMessage int jsstring
  | BotEditMessageText int nat jsstring
  | HttpPost request

text \<open>
  The helper \<open>sendMessage(bot, chatId, text)\<close>: a blank text is not sent. A failure of the
  send is logged and swallowed, so the helper has no other outcome.
\<close>

definition sendMessage :: "int \<Rightarrow> jsstring \<Rightarrow> effect list" where
  "sendMessage chatId txt = (if trim txt = [] then [] else [BotSendMessage chatId txt])"


section \<open>api.js and apiv2.js\<close>

text \<open>The per-mode system prompt and payload prefix, the same text in both files.\<close>

definition promptSystemPrompt :: jsstring where
  "promptSystemPrompt =
     js ''You are an AI assistant specialized in refining text for AI prompts. Translate the user''
     @ [39] @ js ''s input into clear, concise, and unambiguous English suitable for prompting another AI. Respond *only* with the translated text and absolutely nothing else. Do not add any introductory phrases, explanations, or conversational filler.''"

definition commitSystemPrompt :: jsstring where
  "commitSystemPrompt =
     js ''You are an AI assistant specialized in formatting text into git commit messages. Translate the user''
     @ [39] @ js ''s input into a clear and concise English git commit message following conventional standards (e.g., ''
     @ [39] @ js ''feat: add user authentication'' @ [39]
     @ js ''). Respond *only* in the format `git commit -m '' @ [34] @ js ''COMMIT_CONTENT'' @ [34]
     @ js ''`. If you can think of 1 or 2 significantly better alternative phrasings for the commit message, provide them on new lines, each prefixed with ''
     @ [39] @ js ''Alternative:'' @ [39]
     @ js ''. Do not add any other introductory text, explanations, or conversation.''"

definition chatSystemPrompt :: jsstring where
  "chatSystemPrompt =
     js ''You are a helpful AI assistant. Respond conversationally and helpfully to the user''
     @ [39] @ js ''s message. Always respond in User''
     @ [39] @ js ''s language. If the user uses Chinese, respond in Traditional Chinese.''"

definition promptPrefix :: jsstring where
  "promptPrefix = js ''Translate the following prompt into English'' @ [10] @ js ''--- --- ---'' @ [10]"

definition commitPrefix :: jsstring where
  "commitPrefix =
     js ''Translate the following commit message into English'' @ [10] @ js ''--- --- ---'' @ [10]"

text \<open>
  The \<open>if\<close> chain on \<open>mode\<close>: the pair (systemPrompt, modPrefix), or \<open>None\<close> for the
  final \<open>else\<close>, which returns the internal error text.
\<close>

definition modeSettings :: "jsstring \<Rightarrow> (jsstring \<times> jsstring) option" where
  "modeSettings mode =
     (if mode = js ''prompt'' then Some (promptSystemPrompt, promptPrefix)
      else if mode = js ''commit'' then Some (commitSystemPrompt, commitPrefix)
      else if mode = js ''chat'' then Some (chatSystemPrompt, [])
      else None)"

definition buildStandardMessages :: "jsstring \<Rightarrow> jsstring \<Rightarrow> jsstring \<Rightarrow> chat_message list" where
  "buildStandardMessages systemPrompt userPrompt modPrefix =
     (if systemPrompt \<noteq> [] then [\<lparr>role = js ''system'', content = Flat systemPrompt\<rparr>] else [])
     @ [\<lparr>role = js ''user'', content = Flat (modPrefix @ userPrompt)\<rparr>]"

definition buildGoogleMessages :: "jsstring \<Rightarrow> jsstring \<Rightarrow> jsstring \<Rightarrow> chat_message list" where
  "buildGoogleMessages systemPrompt userPrompt modPrefix =
     (if systemPrompt \<noteq> []
      then [\<lparr>role = js ''system'',
             content = Blocks [\<lparr>block_type = js ''text'', block_text = systemPrompt\<rparr>]\<rparr>]
      else [])
     @ [\<lparr>role = js ''user'',
         content = Blocks [\<lparr>block_type = js ''text'', block_text = modPrefix @ userPrompt\<rparr>]\<rparr>]"

text \<open>
  The answer of the network to one \<open>fetch\<close>. The promise rejects, or it resolves to a
  response. \<open>response.ok\<close> is the Fetch standard's test on the status. The code reads the
  body through \<open>response.text()\<close> when the status is not a success and through
  \<open>response.json()\<close> when it is:
  \<^item> \<open>text_result\<close> is the outcome of \<open>await response.text()\<close>: it rejects, or it gives the
    body text, paired with what \<open>JSON.parse\<close> makes of that text (\<open>None\<close> when it throws);
  \<^item> \<open>json_result\<close> is the outcome of \<open>await response.json()\<close> followed by the guard
    \<open>data.choices && data.choices.length > 0 && data.choices[0].message && typeof
    data.choices[0].message.content === 'string'\<close>: the read or the parse rejects, or the
    guard throws a \<open>TypeError\<close> on a \<open>null\<close>, or the guard is false, or it holds with the
    string \<open>data.choices[0].message.content\<close>.
\<close>

datatype data =
    GuardThrows jserror
  | GuardFalse
  | GuardContent jsstring

record response =
  status :: nat
  text_result :: "jserror + jsstring \<times> json option"
  json_result :: "jserror + data"

datatype fetch_outcome = FetchRejects jserror | Responds response

definition response_ok :: "response \<Rightarrow> bool" where
  "response_ok r \<longleftrightarrow> 200 \<le> status r \<and> status r \<le> 299"

text \<open>The outer \<open>catch (error)\<close> block.\<close>

definition catchError :: "jserror \<Rightarrow> jsstring" where
  "catchError e =
     (if err_name e = js ''AbortError'' then js ''Sorry, the request to the AI timed out.''
      else js ''Sorry, I encountered a network or processing error while contacting the AI. Details: ''
           @ err_message e)"

text \<open>
  The \<open>!response.ok\<close> block after the body text has been read. \<open>JSON.parse\<close> throwing, and
  the \<open>TypeError\<close> of \<open>errorJson.error\<close> on \<open>null\<close> or of the template literal on a
  message that has no string form, are swallowed by the inner \<open>catch\<close>, before anything is
  appended. The test \<open>errorJson.error && errorJson.error.message\<close> reads \<open>message\<close> only from a truthy
  \<open>error\<close>, and appends it only when it is truthy itself.
\<close>

definition friendlyError :: "nat \<Rightarrow> json option \<Rightarrow> jsstring" where
  "friendlyError st parsed =
     (let base = js ''Sorry, I encountered an API error ('' @ digits st @ js '').'' in
      case parsed of
        None \<Rightarrow> base
      | Some JNull \<Rightarrow> base
      | Some errorJson \<Rightarrow>
          (case getProp errorJson (js ''error'') of
             None \<Rightarrow> base
           | Some err \<Rightarrow>
               (if \<not> truthy (Some err) then base
                else case getProp err (js ''message'') of
                  None \<Rightarrow> base
                | Some message \<Rightarrow>
                    (if truthy (Some message)
                     then (case toStr message of
                             None \<Rightarrow> base
                           | Some details \<Rightarrow> base @ js '' Details: '' @ details)
                     else base))))"

text \<open>The body of the \<open>try\<close> from the point where \<open>fetch\<close> settles, with its \<open>catch\<close>.\<close>

definition handleOutcome :: "fetch_outcome \<Rightarrow> jsstring" where
  "handleOutcome outcome =
     (case outcome of
        FetchRejects e \<Rightarrow> catchError e
      | Responds r \<Rightarrow>
          (if \<not> response_ok r then
             (case text_result r of
                Inl e \<Rightarrow> catchError e
              | Inr (errorBody, parsed) \<Rightarrow> friendlyError (status r) parsed)
           else
             (case json_result r of
                Inl e \<Rightarrow> catchError e
              | Inr (GuardThrows e) \<Rightarrow> catchError e
              | Inr GuardFalse \<Rightarrow> js ''Sorry, I received an unexpected or empty response from the AI.''
              | Inr (GuardContent c) \<Rightarrow> orElse (trim c) (js ''[Received empty response from AI]''))))"

definition mkRequest :: "jsstring \<Rightarrow> jsstring \<Rightarrow> jsstring \<Rightarrow> chat_message list \<Rightarrow> request" where
  "mkRequest endpoint apiKey modelId msgs =
     \<lparr>url = endpoint, authorization = js ''Bearer '' @ apiKey, model = modelId, messages = msgs\<rparr>"

text \<open>
  \<open>callDeepSeekAPI\<close> (api.js) and \<open>callOpenRouterAPI\<close> (apiv2.js). Each returns the string the
  source returns together with the requests it sent (none or one); the last argument is what
  the network answers if a request is sent.
\<close>

definition callDeepSeekAPI ::
  "jsstring \<Rightarrow> jsstring \<Rightarrow> jsstring \<Rightarrow> jsstring \<Rightarrow> jsstring \<Rightarrow> fetch_outcome \<Rightarrow> jsstring \<times> request list" where
  "callDeepSeekAPI inputText mode currentModelId deepSeekApiEndpoint deepSeekApiKey outcome =
     (let userPrompt = trim inputText in
      if userPrompt = [] then (js ''Input cannot be empty.'', [])
      else case modeSettings mode of
        None \<Rightarrow> (js ''Internal error: Invalid processing mode.'', [])
      | Some (systemPrompt, modPrefix) \<Rightarrow>
          (handleOutcome outcome,
           [mkRequest deepSeekApiEndpoint deepSeekApiKey currentModelId
              [\<lparr>role = js ''system'', content = Flat systemPrompt\<rparr>,
               \<lparr>role = js ''user'', content = Flat (modPrefix @ userPrompt)\<rparr>]]))"

definition callOpenRouterAPI ::
  "jsstring \<Rightarrow> jsstring \<Rightarrow> jsstring \<Rightarrow> jsstring \<Rightarrow> jsstring \<Rightarrow> fetch_outcome \<Rightarrow> jsstring \<times> request list" where
  "callOpenRouterAPI inputText mode currentModelId openRouterApiEndpoint openRouterApiKey outcome =
     (let userPrompt = trim inputText in
      if userPrompt = [] then (js ''Input cannot be empty.'', [])
      else case modeSettings mode of
        None \<Rightarrow> (js ''Internal error: Invalid processing mode.'', [])
      | Some (systemPrompt, modPrefix) \<Rightarrow>
          (let isGoogleModel = startsWith currentModelId (js ''google/'');
               msgs = (if isGoogleModel then buildGoogleMessages systemPrompt userPrompt modPrefix
                       else buildStandardMessages systemPrompt userPrompt modPrefix)
           in (handleOutcome outcome,
               [mkRequest openRouterApiEndpoint openRouterApiKey currentModelId msgs])))"


section \<open>bot.js: configuration and state\<close>

text \<open>
  The bot of this section is the current \<open>bot.js\<close>, the one that imports \<open>./utils\<close> and
  \<open>./api\<close>: in the sources it is the last listing of \<open>README.MD\<close>, from the line
  \<open>require('dotenv').config()\<close> on. The older single-file bot that precedes it there is
  superseded.
\<close>

record model_entry =
  model_id :: jsstring
  model_name :: jsstring
  model_notes :: jsstring

text \<open>
  The three module variables \<open>currentMode\<close>, \<open>availableModels\<close>, \<open>currentModelId\<close>. A missing
  \<open>name\<close> or \<open>notes\<close> of a catalog entry is the empty string: the code only tests their
  truthiness.
\<close>

record settings =
  currentMode :: jsstring
  availableModels :: "model_entry list"
  currentModelId :: jsstring

record config =
  authorizedUserId :: jsnumber
  deepSeekApiEndpoint :: jsstring
  deepSeekApiKey :: jsstring

text \<open>
  The environment variables (\<open>None\<close> when unset), with \<open>AUTHORIZED_USER_ID\<close> already through
  \<open>parseInt\<close>, and what loading \<open>models.json\<close> comes to: the file is absent, or reading or
  parsing or scanning it throws, or it holds an array of entries.
\<close>

record env_vars =
  TELEGRAM_BOT_TOKEN :: "jsstring option"
  AUTHORIZED_USER_ID :: jsnumber
  DEEPSEEK_API_KEY :: "jsstring option"
  DEEPSEEK_API_ENDPOINT :: "jsstring option"
  DEEPSEEK_MODEL :: "jsstring option"

datatype models_file = FileMissing | LoadThrows | Loaded "model_entry list"

definition falsyVar :: "jsstring option \<Rightarrow> bool" where
  "falsyVar v \<longleftrightarrow> v = None \<or> v = Some []"

definition falsyNumber :: "jsnumber \<Rightarrow> bool" where
  "falsyNumber n \<longleftrightarrow> n = NaN \<or> n = Num 0"

definition defaultEntry :: "jsstring \<Rightarrow> model_entry" where
  "defaultEntry defaultModelId =
     \<lparr>model_id = defaultModelId,
      model_name = defaultModelId @ js '' (Default from .env)'',
      model_notes = []\<rparr>"

text \<open>
  Start-up: the validation of the environment and the loading of the catalog. \<open>None\<close> is
  \<open>process.exit(1)\<close>.
\<close>

definition startup :: "env_vars \<Rightarrow> models_file \<Rightarrow> (config \<times> settings) option" where
  "startup ev file =
     (if falsyVar (TELEGRAM_BOT_TOKEN ev) \<or> falsyNumber (AUTHORIZED_USER_ID ev)
         \<or> falsyVar (DEEPSEEK_API_KEY ev) \<or> falsyVar (DEEPSEEK_API_ENDPOINT ev)
         \<or> falsyVar (DEEPSEEK_MODEL ev)
      then None
      else
        (case (DEEPSEEK_API_KEY ev, DEEPSEEK_API_ENDPOINT ev, DEEPSEEK_MODEL ev) of
           (Some apiKey, Some endpoint, Some defaultModelId) \<Rightarrow>
             (let cfg = \<lparr>authorizedUserId = AUTHORIZED_USER_ID ev,
                         deepSeekApiEndpoint = endpoint, deepSeekApiKey = apiKey\<rparr>;
                  fallback = \<lparr>currentMode = js ''prompt'',
                              availableModels = [defaultEntry defaultModelId],
                              currentModelId = defaultModelId\<rparr>
              in case file of
                   FileMissing \<Rightarrow> Some (cfg, fallback)
                 | LoadThrows \<Rightarrow> Some (cfg, fallback)
                 | Loaded ms \<Rightarrow>
                     (if list_ex (\<lambda>m. model_id m = defaultModelId) ms
                      then Some (cfg, \<lparr>currentMode = js ''prompt'', availableModels = ms,
                                       currentModelId = defaultModelId\<rparr>)
                      else (case ms of
                              [] \<Rightarrow> None
                            | m # rest \<Rightarrow>
                                Some (cfg, \<lparr>currentMode = js ''prompt'', availableModels = ms,
                                            currentModelId = model_id m\<rparr>))))
         | _ \<Rightarrow> None))"


section \<open>bot.js: the handlers\<close>

text \<open>
  An incoming Telegram message, by the three properties the handlers read: \<open>msg.chat.id\<close>,
  \<open>msg.from.id\<close>, and \<open>msg.text\<close>, which a non-text message does not have.
\<close>

record message =
  chat_id :: int
  from_id :: int
  msg_text :: "jsstring option"

text \<open>
  What happens outside while one message is handled: the acknowledgment send resolves to a
  message with this \<open>message_id\<close> or rejects, the network answers the \<open>fetch\<close>, and the
  edit of the acknowledgment rejects or not. While the handler awaits the acknowledgment,
  other updates may be handled and switch the mode or the model: \<open>settings_after_ack\<close> is
  \<open>None\<close> when the handler resumes with the settings of its start, and otherwise holds the
  settings it finds.
\<close>

record answers =
  ack_result :: "jserror + nat"
  settings_after_ack :: "settings option"
  fetch_result :: fetch_outcome
  edit_fails :: bool

text \<open>The \<open>/start\<close> handler.\<close>

definition onStart :: "config \<Rightarrow> settings \<Rightarrow> message \<Rightarrow> settings \<times> effect list" where
  "onStart cfg s msg =
     (if isAuthorized (from_id msg) (authorizedUserId cfg)
      then (s, sendMessage (chat_id msg) (js ''You are authorized.''))
      else (s, [BotSendMessage (chat_id msg)
                  (js ''User ID '' @ numToString (from_id msg)
                   @ js '' is not authorized to use this bot.'')]))"

definition helpText :: "settings \<Rightarrow> jsstring" where
  "helpText s =
     js ''Available Commands:'' @ [10]
     @ js ''/help - Show this help message.'' @ [10]
     @ js ''/prompt_mode - Switch to Prompt Translation Mode.'' @ [10]
     @ js ''/commit_mode - Switch to Commit Translation Mode.'' @ [10]
     @ js ''/chat_mode - Switch to General Chat Mode.'' @ [10]
     @ js ''/list_models - Show available AI models and the current one.'' @ [10]
     @ js ''/set_model <model_id> - Switch the AI model to use.'' @ [10]
     @ [10]
     @ js ''Current Mode: '' @ currentMode s @ [10]
     @ js ''Current Model: '' @ currentModelId s @ [10]
     @ [10]
     @ js ''Send any text message to process it with the current mode and model.''"

definition onHelp :: "config \<Rightarrow> settings \<Rightarrow> message \<Rightarrow> settings \<times> effect list" where
  "onHelp cfg s msg =
     (if \<not> isAuthorized (from_id msg) (authorizedUserId cfg) then (s, [])
      else (s, sendMessage (chat_id msg) (helpText s)))"

definition onPromptMode :: "config \<Rightarrow> settings \<Rightarrow> message \<Rightarrow> settings \<times> effect list" where
  "onPromptMode cfg s msg =
     (if \<not> isAuthorized (from_id msg) (authorizedUserId cfg) then (s, [])
      else (s\<lparr>currentMode := js ''prompt''\<rparr>,
            sendMessage (chat_id msg) (js ''Switched to Prompt Translation Mode.'')))"

definition onCommitMode :: "config \<Rightarrow> settings \<Rightarrow> message \<Rightarrow> settings \<times> effect list" where
  "onCommitMode cfg s msg =
     (if \<not> isAuthorized (from_id msg) (authorizedUserId cfg) then (s, [])
      else (s\<lparr>currentMode := js ''commit''\<rparr>,
            sendMessage (chat_id msg) (js ''Switched to Commit Translation Mode.'')))"

definition onChatMode :: "config \<Rightarrow> settings \<Rightarrow> message \<Rightarrow> settings \<times> effect list" where
  "onChatMode cfg s msg =
     (if \<not> isAuthorized (from_id msg) (authorizedUserId cfg) then (s, [])
      else (s\<lparr>currentMode := js ''chat''\<rparr>,
            sendMessage (chat_id msg) (js ''Switched to General Chat Mode.'')))"

text \<open>The body of the \<open>forEach\<close> of the \<open>/list_models\<close> handler, for one entry.\<close>

definition modelLines :: "jsstring \<Rightarrow> model_entry \<Rightarrow> jsstring" where
  "modelLines current m =
     js ''- '' @ orElse (model_name m) (model_id m)
     @ (if model_id m = current then js '' (Current)'' else [])
     @ [10] @ js ''  ID: '' @ model_id m @ [10]
     @ (if model_notes m \<noteq> [] then js ''  Notes: '' @ model_notes m @ [10] else [])"

definition modelListText :: "settings \<Rightarrow> jsstring" where
  "modelListText s =
     (if length (availableModels s) > 0
      then js ''Available Models:'' @ [10]
           @ concat (map (modelLines (currentModelId s)) (availableModels s))
      else js ''No models loaded. Please check models.json or the .env configuration.'')
     @ [10] @ js ''Current Model ID: '' @ currentModelId s"

definition onListModels :: "config \<Rightarrow> settings \<Rightarrow> message \<Rightarrow> settings \<times> effect list" where
  "onListModels cfg s msg =
     (if \<not> isAuthorized (from_id msg) (authorizedUserId cfg) then (s, [])
      else (s, sendMessage (chat_id msg) (modelListText s)))"

text \<open>The \<open>/set_model\<close> handler; \<open>match1\<close> is the capture group \<open>match[1]\<close>.\<close>

definition onSetModel ::
  "config \<Rightarrow> settings \<Rightarrow> message \<Rightarrow> jsstring \<Rightarrow> settings \<times> effect list" where
  "onSetModel cfg s msg match1 =
     (if \<not> isAuthorized (from_id msg) (authorizedUserId cfg) then (s, [])
      else
        (let requestedModelId = trim match1 in
         case find (\<lambda>m. model_id m = requestedModelId) (availableModels s) of
           Some foundModel \<Rightarrow>
             (s\<lparr>currentModelId := model_id foundModel\<rparr>,
              sendMessage (chat_id msg) (js ''Switched model to: '' @ model_id foundModel))
         | None \<Rightarrow>
             (s, sendMessage (chat_id msg)
                   (js ''Error: Model ID '' @ [34] @ requestedModelId @ [34]
                    @ js '' not found. Use /list_models to see available models.''))))"

text \<open>
  Step 4 of the \<open>message\<close> handler: the acknowledgment, the call of \<open>callDeepSeekAPI\<close> with
  the message text, and the relay of its result. An effect is listed when the program
  starts it, whether or not it succeeds. The text of the acknowledgment is built from
  \<open>currentMode\<close> and \<open>currentModelId\<close> before the handler awaits; the arguments of
  \<open>callDeepSeekAPI\<close> read the two variables again after it.
\<close>

definition resumedSettings :: "settings \<Rightarrow> answers \<Rightarrow> settings" where
  "resumedSettings s env = (case settings_after_ack env of None \<Rightarrow> s | Some s' \<Rightarrow> s')"

definition ackText :: "settings \<Rightarrow> jsstring" where
  "ackText s =
     js ''Processing in '' @ currentMode s @ js '' mode with '' @ currentModelId s @ js ''...''"

definition relay :: "int \<Rightarrow> jserror + nat \<Rightarrow> bool \<Rightarrow> jsstring \<Rightarrow> effect list" where
  "relay chatId ackMsg editFails aiResponse =
     (case ackMsg of
        Inr message_id \<Rightarrow>
          (if message_id \<noteq> 0
           then BotEditMessageText chatId message_id
                  (orElse aiResponse (js ''Sorry, an error occurred and no response was generated.''))
                # (if editFails
                   then sendMessage chatId
                          (orElse aiResponse (js ''Sorry, an error occurred processing your request.''))
                   else [])
           else sendMessage chatId
                  (orElse aiResponse (js ''Sorry, an error occurred processing your request.'')))
      | Inl sendError \<Rightarrow>
          sendMessage chatId
            (orElse aiResponse (js ''Sorry, an error occurred processing your request.'')))"

definition processText :: "config \<Rightarrow> settings \<Rightarrow> int \<Rightarrow> jsstring \<Rightarrow> answers \<Rightarrow> effect list" where
  "processText cfg s chatId txt env =
     (let (aiResponse, reqs) =
            callDeepSeekAPI txt (currentMode (resumedSettings s env))
              (currentModelId (resumedSettings s env))
              (deepSeekApiEndpoint cfg) (deepSeekApiKey cfg) (fetch_result env)
      in BotSendMessage chatId (ackText s)
         # map HttpPost reqs
         @ relay chatId (ack_result env) (edit_fails env) aiResponse)"

definition commands :: "jsstring list" where
  "commands = [js ''/start'', js ''/help'', js ''/prompt_mode'', js ''/commit_mode'',
               js ''/chat_mode'', js ''/list_models'']"

text \<open>The \<open>message\<close> handler. It never writes the settings.\<close>

definition onMessage :: "config \<Rightarrow> settings \<Rightarrow> message \<Rightarrow> answers \<Rightarrow> effect list" where
  "onMessage cfg s msg env =
     (if \<not> isAuthorized (from_id msg) (authorizedUserId cfg) then []
      else case msg_text msg of
        None \<Rightarrow> []
      | Some txt \<Rightarrow>
          (if txt = [] then []
           else if txt \<in> set commands \<or> startsWith txt (js ''/set_model '') then []
           else processText cfg s (chat_id msg) txt env))"


section \<open>bot.js: dispatch\<close>

text \<open>
  The regular expressions of the \<open>onText\<close> registrations. \<open>/^\/start/\<close> asks for a prefix;
  \<open>/^\/help$/\<close> and its like ask for the whole text (without the \<open>m\<close> flag, \<open>$\<close> is the
  end of the input only); \<open>/^\/set_model (.+)$/\<close> asks for the token, one space, and a
  non-empty rest without line terminator, which is the capture group.
\<close>

definition matchStart :: "jsstring \<Rightarrow> bool" where
  "matchStart txt \<longleftrightarrow> prefix (js ''/start'') txt"

definition matchSetModel :: "jsstring \<Rightarrow> jsstring option" where
  "matchSetModel txt =
     (let rest = drop (length (js ''/set_model '')) txt in
      if prefix (js ''/set_model '') txt \<and> rest \<noteq> [] \<and> list_all (\<lambda>c. \<not> isLineTerminator c) rest
      then Some rest else None)"

text \<open>
  One update, as node-telegram-bot-api delivers it: the \<open>message\<close> event is emitted for
  every message; then, if the message has a non-empty text, every \<open>onText\<close> callback whose
  regular expression matches is called, in the order of registration (\<open>onlyFirstMatch\<close> is
  off). The result is the settings after the update and the effects of the update. The list
  groups the effects by handler, those of the \<open>message\<close> handler first; it is not a
  timing, since that handler awaits while the callbacks run. The \<open>message\<close> handler
  writes no setting, so the settings after the update are those the callbacks leave; what
  it reads after awaiting is \<open>resumedSettings\<close>.
\<close>

definition whenMatch :: "bool \<Rightarrow> (settings \<Rightarrow> settings \<times> effect list)
    \<Rightarrow> settings \<times> effect list \<Rightarrow> settings \<times> effect list" where
  "whenMatch matches callback acc =
     (if matches then (let (s', es) = callback (fst acc) in (s', snd acc @ es)) else acc)"

definition processUpdate ::
  "config \<Rightarrow> settings \<Rightarrow> message \<Rightarrow> answers \<Rightarrow> settings \<times> effect list" where
  "processUpdate cfg s msg env =
     (let acc0 = (s, onMessage cfg s msg env) in
      case msg_text msg of
        None \<Rightarrow> acc0
      | Some txt \<Rightarrow>
          (if txt = [] then acc0
           else
             (let acc1 = whenMatch (matchStart txt) (\<lambda>s. onStart cfg s msg) acc0;
                  acc2 = whenMatch (txt = js ''/help'') (\<lambda>s. onHelp cfg s msg) acc1;
                  acc3 = whenMatch (txt = js ''/prompt_mode'') (\<lambda>s. onPromptMode cfg s msg) acc2;
                  acc4 = whenMatch (txt = js ''/commit_mode'') (\<lambda>s. onCommitMode cfg s msg) acc3;
                  acc5 = whenMatch (txt = js ''/chat_mode'') (\<lambda>s. onChatMode cfg s msg) acc4;
                  acc6 = whenMatch (txt = js ''/list_models'') (\<lambda>s. onListModels cfg s msg) acc5
              in case matchSetModel txt of
                   None \<Rightarrow> acc6
                 | Some match1 \<Rightarrow>
                     whenMatch True (\<lambda>s. onSetModel cfg s msg match1) acc6)))"

text \<open>A run of the bot: the settings after a sequence of updates.\<close>

fun run :: "config \<Rightarrow> settings \<Rightarrow> (message \<times> answers) list \<Rightarrow> settings" where
  "run cfg s [] = s"
| "run cfg s ((msg, env) # rest) = run cfg (fst (processUpdate cfg s msg env)) rest"


section \<open>Facts about strings\<close>

lemma js_Cons: "js (c # cs) = of_char c # js cs"
  by (simp add: js_def)

lemma js_nonempty: "s \<noteq> [] \<Longrightarrow> js s \<noteq> []"
  by (simp add: js_def)

lemma trim_Nil: "trim [] = []"
  by (simp add: trim_def)

lemma trim_Cons_nonblank: "\<not> isWhiteSpace c \<Longrightarrow> trim (c # r) \<noteq> []"
  by (simp add: trim_def)

lemma dropWhile_snoc_keep: "\<not> P x \<Longrightarrow> dropWhile P (ys @ [x]) = dropWhile P ys @ [x]"
  by (induction ys) auto

text \<open>Trimming twice is trimming once: what \<open>trim\<close> returns has no blank at either end.\<close>

lemma trim_idem: "trim (trim s) = trim s"
proof (cases "dropWhile isWhiteSpace s")
  case Nil
  have "trim s = []" unfolding trim_def Nil by simp
  then show ?thesis by (simp add: trim_Nil)
next
  case (Cons x t)
  then have nx: "\<not> isWhiteSpace x"
    using hd_dropWhile [of isWhiteSpace s] by simp
  have kept: "trim s = x # rev (dropWhile isWhiteSpace (rev t))"
    by (simp add: trim_def Cons dropWhile_snoc_keep nx)
  have "trim (x # rev (dropWhile isWhiteSpace (rev t))) = x # rev (dropWhile isWhiteSpace (rev t))"
  proof -
    have "dropWhile isWhiteSpace (dropWhile isWhiteSpace (rev t)) = dropWhile isWhiteSpace (rev t)"
      by simp
    then show ?thesis by (simp add: trim_def nx dropWhile_snoc_keep)
  qed
  with kept show ?thesis by simp
qed

lemma nonws_S: "\<not> isWhiteSpace 83"
  by (simp add: isWhiteSpace_def isLineTerminator_def)

lemma nonws_I: "\<not> isWhiteSpace 73"
  by (simp add: isWhiteSpace_def isLineTerminator_def)

lemma nonws_bracket: "\<not> isWhiteSpace 91"
  by (simp add: isWhiteSpace_def isLineTerminator_def)


section \<open>The remote call\<close>

text \<open>Every string the adapter returns has a non-blank character.\<close>

lemma catchError_nonblank: "trim (catchError e) \<noteq> []"
  by (simp add: catchError_def js_Cons trim_Cons_nonblank nonws_S)

lemma friendlyError_nonblank: "trim (friendlyError st p) \<noteq> []"
  by (simp add: friendlyError_def Let_def js_Cons trim_Cons_nonblank nonws_S
      split: option.split json.split)

lemma handleOutcome_nonblank: "trim (handleOutcome outcome) \<noteq> []"
  by (auto simp: handleOutcome_def orElse_def catchError_nonblank friendlyError_nonblank trim_idem
        js_Cons trim_Cons_nonblank nonws_S nonws_bracket
      split: fetch_outcome.split sum.split data.split prod.split)

lemma callDeepSeekAPI_nonblank: "trim (fst (callDeepSeekAPI i m c e k outcome)) \<noteq> []"
  by (auto simp: callDeepSeekAPI_def Let_def handleOutcome_nonblank js_Cons trim_Cons_nonblank nonws_I
      split: option.split)

lemma modeSettings_systemPrompt: "modeSettings mode = Some (sp, pre) \<Longrightarrow> sp \<noteq> []"
  by (auto simp: modeSettings_def promptSystemPrompt_def commitSystemPrompt_def chatSystemPrompt_def
        js_nonempty split: if_splits)

text \<open>
  Claim C6. For every payload whose text trims to the empty string, and every mode and model
  id, \<open>callDeepSeekAPI\<close> and \<open>callOpenRouterAPI\<close> return the fixed text "Input cannot be
  empty." and send no HTTP request, whatever the network would have answered.
\<close>

theorem C6_empty_input:
  assumes "trim inputText = []"
  shows "callDeepSeekAPI inputText mode modelId endpoint apiKey outcome
           = (js ''Input cannot be empty.'', [])
       \<and> callOpenRouterAPI inputText mode modelId endpoint apiKey outcome
           = (js ''Input cannot be empty.'', [])"
  using assms by (simp add: callDeepSeekAPI_def callOpenRouterAPI_def)

theorem C6_empty_input_witness:
  "trim ([32, 9, 10] :: jsstring) = []
   \<and> callDeepSeekAPI [32, 9, 10] (js ''chat'') (js ''m'') (js ''e'') (js ''k'')
         (FetchRejects (JsError [] []))
       = (js ''Input cannot be empty.'', [])
   \<and> callOpenRouterAPI [32, 9, 10] (js ''chat'') (js ''m'') (js ''e'') (js ''k'')
         (FetchRejects (JsError [] []))
       = (js ''Input cannot be empty.'', [])"
proof -
  have h: "trim ([32, 9, 10] :: jsstring) = []"
    by (simp add: trim_def isWhiteSpace_def isLineTerminator_def)
  show ?thesis
    using h C6_empty_input [OF h, of "js ''chat''" "js ''m''" "js ''e''" "js ''k''"
        "FetchRejects (JsError [] [])"]
    by simp
qed

text \<open>
  Claim C7. For a payload that is not blank and a recognized mode (one for which the \<open>if\<close>
  chain sets a system prompt and a prefix), \<open>callOpenRouterAPI\<close> sends one request. When the
  model id starts with "google/", the content of its user message is an array holding
  exactly one block, of type "text", whose text is the mode prefix followed by the trimmed
  payload; for any other model id the content is that same concatenation as a flat string.
  The text of the system instruction is the same in both variants.
\<close>

theorem C7_content_variant:
  assumes "trim inputText \<noteq> []" and "modeSettings mode = Some (systemPrompt, modPrefix)"
  shows "snd (callOpenRouterAPI inputText mode modelId endpoint apiKey outcome) =
     [mkRequest endpoint apiKey modelId
        (if startsWith modelId (js ''google/'')
         then [\<lparr>role = js ''system'',
                content = Blocks [\<lparr>block_type = js ''text'', block_text = systemPrompt\<rparr>]\<rparr>,
               \<lparr>role = js ''user'',
                content = Blocks [\<lparr>block_type = js ''text'',
                                   block_text = modPrefix @ trim inputText\<rparr>]\<rparr>]
         else [\<lparr>role = js ''system'', content = Flat systemPrompt\<rparr>,
               \<lparr>role = js ''user'', content = Flat (modPrefix @ trim inputText)\<rparr>])]"
  using assms modeSettings_systemPrompt [OF assms(2)]
  by (simp add: callOpenRouterAPI_def Let_def buildGoogleMessages_def buildStandardMessages_def)

theorem C7_content_variant_witness:
  "trim (js '' add login '') \<noteq> []
   \<and> modeSettings (js ''commit'') = Some (commitSystemPrompt, commitPrefix)
   \<and> snd (callOpenRouterAPI (js '' add login '') (js ''commit'') (js ''google/gemini-flash-1.5'')
            (js ''e'') (js ''k'') (FetchRejects (JsError [] []))) =
     [mkRequest (js ''e'') (js ''k'') (js ''google/gemini-flash-1.5'')
        [\<lparr>role = js ''system'',
          content = Blocks [\<lparr>block_type = js ''text'', block_text = commitSystemPrompt\<rparr>]\<rparr>,
         \<lparr>role = js ''user'',
          content = Blocks [\<lparr>block_type = js ''text'',
                             block_text = commitPrefix @ js ''add login''\<rparr>]\<rparr>]]"
proof -
  have t: "trim (js '' add login '') = js ''add login''"
    by (simp add: trim_def js_def isWhiteSpace_def isLineTerminator_def)
  have n: "trim (js '' add login '') \<noteq> []"
    by (simp add: t) (simp add: js_def)
  have m: "modeSettings (js ''commit'') = Some (commitSystemPrompt, commitPrefix)"
    by (simp add: modeSettings_def js_def)
  have g: "startsWith (js ''google/gemini-flash-1.5'') (js ''google/'')"
    by (simp add: startsWith_def js_def)
  show ?thesis
    using n m
      C7_content_variant [OF n m, of "js ''google/gemini-flash-1.5''" "js ''e''" "js ''k''"
        "FetchRejects (JsError [] [])"]
    by (simp add: g t)
qed


section \<open>Dispatch of one update\<close>

lemma whenMatch_False: "whenMatch False cb acc = acc"
  by (simp add: whenMatch_def)

lemma whenMatch_True:
  "whenMatch True cb acc = (fst (cb (fst acc)), snd acc @ snd (cb (fst acc)))"
  by (simp add: whenMatch_def split: prod.split)

lemma whenMatch_noop: "cb (fst acc) = (fst acc, []) \<Longrightarrow> whenMatch b cb acc = acc"
  by (simp add: whenMatch_def)

lemma sendMessage_sends: "trim t \<noteq> [] \<Longrightarrow> sendMessage c t = [BotSendMessage c t]"
  by (simp add: sendMessage_def)

lemma nonws_slash: "\<not> isWhiteSpace 47"
  by (simp add: isWhiteSpace_def isLineTerminator_def)

text \<open>The relay of a text that is not blank: no substitution, and the helper sends.\<close>

lemma relay_nonblank:
  assumes "trim aiResponse \<noteq> []"
  shows "relay chatId ackMsg editFails aiResponse =
     (case ackMsg of
        Inl sendError \<Rightarrow> [BotSendMessage chatId aiResponse]
      | Inr message_id \<Rightarrow>
          if message_id \<noteq> 0
          then BotEditMessageText chatId message_id aiResponse
               # (if editFails then [BotSendMessage chatId aiResponse] else [])
          else [BotSendMessage chatId aiResponse])"
proof -
  from assms have "aiResponse \<noteq> []" using trim_Nil by auto
  with assms show ?thesis
    by (simp add: relay_def orElse_def sendMessage_sends split: sum.split)
qed

lemma nonws_E: "\<not> isWhiteSpace 69"
  by (simp add: isWhiteSpace_def isLineTerminator_def)

lemma nonws_Y: "\<not> isWhiteSpace 89"
  by (simp add: isWhiteSpace_def isLineTerminator_def)

lemma nonblank_switched: "trim (js ''Switched model to: '' @ x) \<noteq> []"
  by (simp add: js_Cons trim_Cons_nonblank nonws_S)

lemma nonblank_not_found: "trim (js ''Error: Model ID '' @ x) \<noteq> []"
  by (simp add: js_Cons trim_Cons_nonblank nonws_E)

lemma nonblank_authorized: "trim (js ''You are authorized.'') \<noteq> []"
  by (simp add: js_Cons trim_Cons_nonblank nonws_Y)

lemma trim_all_blank:
  assumes "list_all isWhiteSpace ws"
  shows "trim ws = []"
proof -
  have h: "dropWhile isWhiteSpace ws = []"
    using assms by (simp add: list_all_iff)
  show ?thesis unfolding trim_def h by simp
qed

text \<open>
  A text that no \<open>onText\<close> pattern matches and that the \<open>message\<close> handler does not take
  for a command goes through step 4 and nothing else.
\<close>

lemma processUpdate_payload:
  assumes "isAuthorized (from_id msg) (authorizedUserId cfg)"
    and "msg_text msg = Some t" and "t \<noteq> []"
    and "\<not> matchStart t" and "t \<notin> set commands" and "\<not> prefix (js ''/set_model '') t"
  shows "processUpdate cfg s msg env = (s, processText cfg s (chat_id msg) t env)"
proof -
  have c: "t \<noteq> js ''/help''" "t \<noteq> js ''/prompt_mode''" "t \<noteq> js ''/commit_mode''"
    "t \<noteq> js ''/chat_mode''" "t \<noteq> js ''/list_models''"
    using assms(5) by (auto simp: commands_def)
  have m: "matchSetModel t = None"
    using assms(6) by (simp add: matchSetModel_def Let_def)
  have o: "onMessage cfg s msg env = processText cfg s (chat_id msg) t env"
    using assms by (simp add: onMessage_def startsWith_def)
  show ?thesis
    using assms(2,3,4) c m o by (simp add: processUpdate_def Let_def whenMatch_False)
qed

text \<open>What a match of the model-switch pattern says about the text.\<close>

lemma matchSetModel_SomeD:
  assumes "matchSetModel t = Some a"
  shows "t = js ''/set_model '' @ a" and "a \<noteq> []"
    and "list_all (\<lambda>c. \<not> isLineTerminator c) a"
proof -
  from assms have p: "prefix (js ''/set_model '') t"
    and a: "a = drop (length (js ''/set_model '')) t"
    and n: "a \<noteq> []" and l: "list_all (\<lambda>c. \<not> isLineTerminator c) a"
    by (auto simp: matchSetModel_def Let_def split: if_splits)
  from p obtain zs where "t = js ''/set_model '' @ zs" by (auto simp: prefix_def)
  with a show "t = js ''/set_model '' @ a" by simp
  show "a \<noteq> []" by (rule n)
  show "list_all (\<lambda>c. \<not> isLineTerminator c) a" by (rule l)
qed

lemma matchSetModel_rest:
  "rest \<noteq> [] \<Longrightarrow> list_all (\<lambda>c. \<not> isLineTerminator c) rest
   \<Longrightarrow> matchSetModel (js ''/set_model '' @ rest) = Some rest"
  by (simp add: matchSetModel_def Let_def)

lemma set_model_text_facts:
  "\<not> matchStart (js ''/set_model '' @ a)"
  "js ''/set_model '' @ a \<noteq> js ''/help''"
  "js ''/set_model '' @ a \<noteq> js ''/prompt_mode''"
  "js ''/set_model '' @ a \<noteq> js ''/commit_mode''"
  "js ''/set_model '' @ a \<noteq> js ''/chat_mode''"
  "js ''/set_model '' @ a \<noteq> js ''/list_models''"
  "js ''/set_model '' \<noteq> []"
  by (simp_all add: matchStart_def js_def)

lemma onMessage_set_model:
  "msg_text msg = Some (js ''/set_model '' @ a) \<Longrightarrow> onMessage cfg s msg env = []"
  by (simp add: onMessage_def startsWith_def)

text \<open>A text the model-switch pattern matches is handled by the model-switch handler alone.\<close>

lemma processUpdate_set_model:
  assumes "msg_text msg = Some t" and "matchSetModel t = Some a"
  shows "processUpdate cfg s msg env = onSetModel cfg s msg a"
proof -
  have t: "t = js ''/set_model '' @ a" using assms(2) by (rule matchSetModel_SomeD)
  have m: "onMessage cfg s msg env = []"
    using assms(1) unfolding t by (rule onMessage_set_model)
  show ?thesis
    using assms m set_model_text_facts unfolding t
    by (simp add: processUpdate_def Let_def whenMatch_False whenMatch_True)
qed

lemma find_model_id: "find (\<lambda>m. model_id m = r) ms = Some m \<Longrightarrow> model_id m = r"
  by (auto simp: find_Some_iff)

lemma find_model_None:
  "find (\<lambda>m. model_id m = r) ms = None \<longleftrightarrow> r \<notin> set (map model_id ms)"
  by (auto simp: find_None_iff)

text \<open>
  Claim C2. For every sender that the authorization gate rejects and every incoming message
  that is not of the start command form (a message without text, or a text that does not
  begin with "/start"), handling the message sends no reply, makes no remote call, and
  leaves the settings (mode, active model id, catalog) as they were.
\<close>

theorem C2_unauthorized_dropped:
  assumes "\<not> isAuthorized (from_id msg) (authorizedUserId cfg)"
    and "\<forall>t. msg_text msg = Some t \<longrightarrow> \<not> prefix (js ''/start'') t"
  shows "processUpdate cfg s msg env = (s, [])"
proof (cases "msg_text msg")
  case None
  then show ?thesis using assms(1) by (simp add: processUpdate_def onMessage_def)
next
  case (Some t)
  then have ns: "\<not> matchStart t" using assms(2) by (simp add: matchStart_def)
  have m: "onMessage cfg s msg env = []" using assms(1) by (simp add: onMessage_def)
  have h: "onHelp cfg s msg = (s, [])" "onPromptMode cfg s msg = (s, [])"
    "onCommitMode cfg s msg = (s, [])" "onChatMode cfg s msg = (s, [])"
    "onListModels cfg s msg = (s, [])" "\<And>a. onSetModel cfg s msg a = (s, [])"
    using assms(1)
    by (simp_all add: onHelp_def onPromptMode_def onCommitMode_def onChatMode_def
        onListModels_def onSetModel_def)
  show ?thesis
    using Some ns m h
    by (simp add: processUpdate_def Let_def whenMatch_False whenMatch_noop split: option.split)
qed

theorem C2_unauthorized_dropped_witness:
  "\<not> isAuthorized 8 (Num 7)
   \<and> \<not> prefix (js ''/start'') (js ''/chat_mode'')
   \<and> processUpdate
        \<lparr>authorizedUserId = Num 7, deepSeekApiEndpoint = js ''e'', deepSeekApiKey = js ''k''\<rparr>
        \<lparr>currentMode = js ''prompt'', availableModels = [defaultEntry (js ''m'')],
         currentModelId = js ''m''\<rparr>
        \<lparr>chat_id = 1, from_id = 8, msg_text = Some (js ''/chat_mode'')\<rparr>
        \<lparr>ack_result = Inr 5, settings_after_ack = None, fetch_result = FetchRejects (JsError [] []), edit_fails = False\<rparr>
      = (\<lparr>currentMode = js ''prompt'', availableModels = [defaultEntry (js ''m'')],
          currentModelId = js ''m''\<rparr>, [])"
proof -
  have a: "\<not> isAuthorized 8 (Num 7)" by (simp add: isAuthorized_def)
  have b: "\<not> prefix (js ''/start'') (js ''/chat_mode'')" by (simp add: js_def)
  show ?thesis
    using a b
      C2_unauthorized_dropped [of "\<lparr>chat_id = 1, from_id = 8, msg_text = Some (js ''/chat_mode'')\<rparr>"
        "\<lparr>authorizedUserId = Num 7, deepSeekApiEndpoint = js ''e'', deepSeekApiKey = js ''k''\<rparr>"]
    by simp
qed

text \<open>
  Claim C4. For every model-switch command from an authorized sender (a text the pattern
  \<open>/^\/set_model (.+)$/\<close> matches, with capture group \<open>arg\<close>): if the trimmed argument equals
  the id of some catalog entry, the active model id becomes that id and the single reply
  reports it; if it equals no catalog id, the settings are unchanged and the single reply is
  the model-not-found message that points to \<open>/list_models\<close>.
\<close>

theorem C4_model_switch:
  assumes "isAuthorized (from_id msg) (authorizedUserId cfg)"
    and "msg_text msg = Some t" and "matchSetModel t = Some arg"
  shows "(trim arg \<in> set (map model_id (availableModels s)) \<longrightarrow>
            processUpdate cfg s msg env =
              (s\<lparr>currentModelId := trim arg\<rparr>,
               [BotSendMessage (chat_id msg) (js ''Switched model to: '' @ trim arg)]))
       \<and> (trim arg \<notin> set (map model_id (availableModels s)) \<longrightarrow>
            processUpdate cfg s msg env =
              (s, [BotSendMessage (chat_id msg)
                     (js ''Error: Model ID '' @ [34] @ trim arg @ [34]
                      @ js '' not found. Use /list_models to see available models.'')]))"
proof (intro conjI impI)
  assume "trim arg \<in> set (map model_id (availableModels s))"
  then obtain m where f: "find (\<lambda>m. model_id m = trim arg) (availableModels s) = Some m"
    using find_model_None [of "trim arg" "availableModels s"] by auto
  then have i: "model_id m = trim arg" by (rule find_model_id)
  show "processUpdate cfg s msg env =
          (s\<lparr>currentModelId := trim arg\<rparr>,
           [BotSendMessage (chat_id msg) (js ''Switched model to: '' @ trim arg)])"
    using assms(1) f i
    by (simp add: processUpdate_set_model [OF assms(2,3)] onSetModel_def Let_def
        sendMessage_sends nonblank_switched)
next
  assume "trim arg \<notin> set (map model_id (availableModels s))"
  then have f: "find (\<lambda>m. model_id m = trim arg) (availableModels s) = None"
    by (simp add: find_model_None)
  show "processUpdate cfg s msg env =
          (s, [BotSendMessage (chat_id msg)
                 (js ''Error: Model ID '' @ [34] @ trim arg @ [34]
                  @ js '' not found. Use /list_models to see available models.'')])"
    using assms(1) f
    by (simp add: processUpdate_set_model [OF assms(2,3)] onSetModel_def Let_def
        sendMessage_sends nonblank_not_found)
qed

theorem C4_model_switch_witness:
  "isAuthorized 7 (Num 7)
   \<and> matchSetModel (js ''/set_model qwen '') = Some (js ''qwen '')
   \<and> trim (js ''qwen '') = js ''qwen''
   \<and> processUpdate
        \<lparr>authorizedUserId = Num 7, deepSeekApiEndpoint = js ''e'', deepSeekApiKey = js ''k''\<rparr>
        \<lparr>currentMode = js ''prompt'',
         availableModels = [defaultEntry (js ''m''), defaultEntry (js ''qwen'')],
         currentModelId = js ''m''\<rparr>
        \<lparr>chat_id = 1, from_id = 7, msg_text = Some (js ''/set_model qwen '')\<rparr>
        \<lparr>ack_result = Inr 5, settings_after_ack = None, fetch_result = FetchRejects (JsError [] []), edit_fails = False\<rparr>
      = (\<lparr>currentMode = js ''prompt'',
          availableModels = [defaultEntry (js ''m''), defaultEntry (js ''qwen'')],
          currentModelId = js ''qwen''\<rparr>,
         [BotSendMessage 1 (js ''Switched model to: qwen'')])"
proof -
  have a: "isAuthorized 7 (Num 7)" by (simp add: isAuthorized_def)
  have b: "matchSetModel (js ''/set_model qwen '') = Some (js ''qwen '')"
    by (simp add: matchSetModel_def js_def isLineTerminator_def)
  have c: "trim (js ''qwen '') = js ''qwen''"
    by (simp add: trim_def js_def isWhiteSpace_def isLineTerminator_def)
  have d: "js ''Switched model to: '' @ js ''qwen'' = js ''Switched model to: qwen''"
    by (simp add: js_def)
  show ?thesis
    using a b c d
      C4_model_switch [of "\<lparr>chat_id = 1, from_id = 7, msg_text = Some (js ''/set_model qwen '')\<rparr>"
        "\<lparr>authorizedUserId = Num 7, deepSeekApiEndpoint = js ''e'', deepSeekApiKey = js ''k''\<rparr>"
        "js ''/set_model qwen ''" "js ''qwen ''"
        "\<lparr>currentMode = js ''prompt'',
          availableModels = [defaultEntry (js ''m''), defaultEntry (js ''qwen'')],
          currentModelId = js ''m''\<rparr>"]
    by (simp add: defaultEntry_def)
qed

text \<open>
  Claim C5. For every authorized sender, a text made of one of the exact-match command
  tokens (\<open>/help\<close>, \<open>/prompt_mode\<close>, \<open>/commit_mode\<close>, \<open>/chat_mode\<close>, \<open>/list_models\<close>) followed
  by at least one more character triggers no command handler and is handled as payload. The
  settings are unchanged and no command reply is sent: the effects of the update are the
  acknowledgment "Processing in ... mode with ...", then the work of \<open>callDeepSeekAPI\<close> on
  the whole text, which is not blank, and the delivery of its result. For a recognized mode
  that work is one HTTP request whose user content is the mode prefix followed by the
  trimmed text, and the result is what the adapter makes of the answer; for any other mode
  string it is the internal-error text. The result is delivered by editing the
  acknowledgment, with a new message when the edit fails or no acknowledgment was sent. The
  start token is the exception the specification names; it is not among these tokens.
\<close>

theorem C5_near_miss:
  assumes "isAuthorized (from_id msg) (authorizedUserId cfg)"
    and "token \<in> {js ''/help'', js ''/prompt_mode'', js ''/commit_mode'', js ''/chat_mode'',
                   js ''/list_models''}"
    and "extra \<noteq> []"
    and "msg_text msg = Some (token @ extra)"
  shows "trim (token @ extra) \<noteq> []
       \<and> processUpdate cfg s msg env =
          (let deliver = (\<lambda>finalText.
                 case ack_result env of
                   Inl sendError \<Rightarrow> [BotSendMessage (chat_id msg) finalText]
                 | Inr message_id \<Rightarrow>
                     if message_id \<noteq> 0
                     then BotEditMessageText (chat_id msg) message_id finalText
                          # (if edit_fails env then [BotSendMessage (chat_id msg) finalText]
                             else [])
                     else [BotSendMessage (chat_id msg) finalText])
           in (s, BotSendMessage (chat_id msg)
                    (js ''Processing in '' @ currentMode s @ js '' mode with ''
                     @ currentModelId s @ js ''...'')
                  # (case modeSettings (currentMode (resumedSettings s env)) of
                       None \<Rightarrow> deliver (js ''Internal error: Invalid processing mode.'')
                     | Some (systemPrompt, modPrefix) \<Rightarrow>
                         HttpPost
                           \<lparr>url = deepSeekApiEndpoint cfg,
                            authorization = js ''Bearer '' @ deepSeekApiKey cfg,
                            model = currentModelId (resumedSettings s env),
                            messages =
                              [\<lparr>role = js ''system'', content = Flat systemPrompt\<rparr>,
                               \<lparr>role = js ''user'',
                                content = Flat (modPrefix @ trim (token @ extra))\<rparr>]\<rparr>
                         # deliver (handleOutcome (fetch_result env)))))"
proof -
  have n: "trim (token @ extra) \<noteq> []"
    using assms(2) by (auto simp: js_Cons trim_Cons_nonblank nonws_slash)
  have i: "trim (js ''Internal error: Invalid processing mode.'') \<noteq> []"
    by (simp add: js_Cons trim_Cons_nonblank nonws_I)
  have p: "processUpdate cfg s msg env = (s, processText cfg s (chat_id msg) (token @ extra) env)"
  proof (rule processUpdate_payload [OF assms(1) assms(4)])
    show "token @ extra \<noteq> []" using assms(3) by simp
    show "\<not> matchStart (token @ extra)"
      using assms(2) by (auto simp: matchStart_def js_def)
    show "token @ extra \<notin> set commands"
      using assms(2,3) by (auto simp: commands_def js_def)
    show "\<not> prefix (js ''/set_model '') (token @ extra)"
      using assms(2) by (auto simp: js_def)
  qed
  show ?thesis
    using n i
    by (simp add: p processText_def callDeepSeekAPI_def Let_def ackText_def mkRequest_def
        relay_nonblank handleOutcome_nonblank split: option.split)
qed

theorem C5_near_miss_witness:
  "isAuthorized 7 (Num 7)
   \<and> js '' me'' \<noteq> []
   \<and> processUpdate
        \<lparr>authorizedUserId = Num 7, deepSeekApiEndpoint = js ''e'', deepSeekApiKey = js ''k''\<rparr>
        \<lparr>currentMode = js ''commit'', availableModels = [defaultEntry (js ''m'')],
         currentModelId = js ''m''\<rparr>
        \<lparr>chat_id = 1, from_id = 7, msg_text = Some (js ''/help me'')\<rparr>
        \<lparr>ack_result = Inr 5, settings_after_ack = None,
         fetch_result = FetchRejects (JsError (js ''AbortError'') []), edit_fails = False\<rparr>
      = (\<lparr>currentMode = js ''commit'', availableModels = [defaultEntry (js ''m'')],
          currentModelId = js ''m''\<rparr>,
         [BotSendMessage 1 (js ''Processing in commit mode with m...''),
          HttpPost
            \<lparr>url = js ''e'', authorization = js ''Bearer k'', model = js ''m'',
             messages =
               [\<lparr>role = js ''system'', content = Flat commitSystemPrompt\<rparr>,
                \<lparr>role = js ''user'', content = Flat (commitPrefix @ js ''/help me'')\<rparr>]\<rparr>,
          BotEditMessageText 1 5 (js ''Sorry, the request to the AI timed out.'')])"
proof -
  let ?msg = "\<lparr>chat_id = 1, from_id = 7, msg_text = Some (js ''/help me'')\<rparr>"
  let ?cfg = "\<lparr>authorizedUserId = Num 7, deepSeekApiEndpoint = js ''e'',
               deepSeekApiKey = js ''k''\<rparr>"
  have a: "isAuthorized 7 (Num 7)" by (simp add: isAuthorized_def)
  have a': "isAuthorized (from_id ?msg) (authorizedUserId ?cfg)" using a by simp
  have b: "js '' me'' \<noteq> []" by (simp add: js_def)
  have c: "js ''/help'' @ js '' me'' = js ''/help me''" by (simp add: js_def)
  have d: "js ''/help'' \<in> {js ''/help'', js ''/prompt_mode'', js ''/commit_mode'',
                            js ''/chat_mode'', js ''/list_models''}"
    by simp
  have e: "msg_text ?msg = Some (js ''/help'' @ js '' me'')" by (simp add: c)
  have t: "trim (js ''/help me'') = js ''/help me''"
    by (simp add: trim_def js_def isWhiteSpace_def isLineTerminator_def)
  have m: "modeSettings (js ''commit'') = Some (commitSystemPrompt, commitPrefix)"
    by (simp add: modeSettings_def js_def)
  have x: "js ''Processing in '' @ js ''commit'' @ js '' mode with '' @ js ''m'' @ js ''...''
             = js ''Processing in commit mode with m...''"
    "js ''Bearer '' @ js ''k'' = js ''Bearer k''"
    by (simp_all add: js_def)
  note T = C5_near_miss [OF a' d b e,
      of "\<lparr>currentMode = js ''commit'', availableModels = [defaultEntry (js ''m'')],
           currentModelId = js ''m''\<rparr>"
         "\<lparr>ack_result = Inr 5, settings_after_ack = None,
           fetch_result = FetchRejects (JsError (js ''AbortError'') []), edit_fails = False\<rparr>",
      THEN conjunct2]
  show ?thesis
    using a b T
    by (simp add: c t m x Let_def resumedSettings_def handleOutcome_def catchError_def)
qed

text \<open>
  A text with the prefix "/set_model " is acted on by the model-switch handler or by none.
\<close>

lemma processUpdate_set_model_prefix:
  assumes "msg_text msg = Some (js ''/set_model '' @ a)"
  shows "processUpdate cfg s msg env =
           (case matchSetModel (js ''/set_model '' @ a) of
              None \<Rightarrow> (s, [])
            | Some arg \<Rightarrow> onSetModel cfg s msg arg)"
proof (cases "matchSetModel (js ''/set_model '' @ a)")
  case None
  have m: "onMessage cfg s msg env = []" using assms by (rule onMessage_set_model)
  show ?thesis
    using assms m None set_model_text_facts
    by (simp add: processUpdate_def Let_def whenMatch_False)
next
  case (Some arg)
  then show ?thesis by (simp add: processUpdate_set_model [OF assms Some])
qed

text \<open>
  The blank rest with a line terminator, or no rest at all: the pattern does not match and
  the \<open>message\<close> handler skips the text for its prefix, so the update has no effect.
\<close>

lemma set_model_line_feed_dropped:
  "list_all isWhiteSpace [10]
   \<and> processUpdate
        \<lparr>authorizedUserId = Num 7, deepSeekApiEndpoint = js ''e'', deepSeekApiKey = js ''k''\<rparr>
        \<lparr>currentMode = js ''prompt'', availableModels = [defaultEntry (js ''m'')],
         currentModelId = js ''m''\<rparr>
        \<lparr>chat_id = 1, from_id = 7, msg_text = Some (js ''/set_model '' @ [10])\<rparr>
        \<lparr>ack_result = Inr 5, settings_after_ack = None,
         fetch_result = FetchRejects (JsError [] []), edit_fails = False\<rparr>
      = (\<lparr>currentMode = js ''prompt'', availableModels = [defaultEntry (js ''m'')],
          currentModelId = js ''m''\<rparr>, [])"
proof -
  have a: "matchSetModel (js ''/set_model '' @ [10]) = None"
    by (simp add: matchSetModel_def Let_def isLineTerminator_def)
  show ?thesis
    by (simp add: processUpdate_set_model_prefix a isWhiteSpace_def isLineTerminator_def)
qed

text \<open>
  Claim C10, as stated, fails when the catalog holds an entry whose id is the empty string:
  the lookup is by equality of ids, so the blank argument, trimmed to the empty string, is
  found. From the authorized sender, "/set_model" followed by two spaces then makes the
  empty id the active model id and the reply reports the switch.
\<close>

theorem C10_blank_argument_counterexample:
  "isAuthorized 7 (Num 7)
   \<and> list_all isWhiteSpace [32]
   \<and> processUpdate
        \<lparr>authorizedUserId = Num 7, deepSeekApiEndpoint = js ''e'', deepSeekApiKey = js ''k''\<rparr>
        \<lparr>currentMode = js ''prompt'',
         availableModels = [defaultEntry (js ''m''), defaultEntry []],
         currentModelId = js ''m''\<rparr>
        \<lparr>chat_id = 1, from_id = 7, msg_text = Some (js ''/set_model '' @ [32])\<rparr>
        \<lparr>ack_result = Inr 5, settings_after_ack = None,
         fetch_result = FetchRejects (JsError [] []), edit_fails = False\<rparr>
      = (\<lparr>currentMode = js ''prompt'',
          availableModels = [defaultEntry (js ''m''), defaultEntry []],
          currentModelId = []\<rparr>,
         [BotSendMessage 1 (js ''Switched model to: '')])
   \<and> js ''m'' \<noteq> []"
proof -
  have b: "matchSetModel (js ''/set_model '' @ [32]) = Some [32]"
    by (simp add: matchSetModel_def Let_def isLineTerminator_def)
  have c: "trim [32] = []" by (simp add: trim_def isWhiteSpace_def)
  have d: "js ''m'' \<noteq> []" by (simp add: js_def)
  have e: "trim (js ''Switched model to: '') \<noteq> []"
    using nonblank_switched [of "[]"] by simp
  show ?thesis
    using d e
    by (simp add: processUpdate_set_model_prefix b c onSetModel_def Let_def isAuthorized_def
        defaultEntry_def sendMessage_sends isWhiteSpace_def isLineTerminator_def)
qed

text \<open>
  Claim C10, amended. For every authorized sender, a message made of "/set_model", one
  space and then one or more whitespace characters, none of them a line terminator (code
  units 10, 13, 8232, 8233), is classified as a model-switch command and the trimmed
  argument is the empty string. The update consists of one reply and never reaches step 4
  of the \<open>message\<close> handler. If no catalog entry has the empty string as id, the settings are
  unchanged and the reply is the model-not-found message, for the empty id; if one has, the
  empty id becomes the active model id and the reply reports the switch.
\<close>

theorem C10_blank_argument:
  assumes "isAuthorized (from_id msg) (authorizedUserId cfg)"
    and "msg_text msg = Some (js ''/set_model '' @ ws)"
    and "ws \<noteq> []"
    and "list_all (\<lambda>c. isWhiteSpace c \<and> \<not> isLineTerminator c) ws"
  shows "matchSetModel (js ''/set_model '' @ ws) = Some ws
       \<and> trim ws = []
       \<and> processUpdate cfg s msg env =
           (if [] \<in> set (map model_id (availableModels s))
            then (s\<lparr>currentModelId := []\<rparr>,
                  [BotSendMessage (chat_id msg) (js ''Switched model to: '')])
            else (s, [BotSendMessage (chat_id msg)
                        (js ''Error: Model ID '' @ [34, 34]
                         @ js '' not found. Use /list_models to see available models.'')]))"
proof (intro conjI)
  have w: "list_all isWhiteSpace ws" and l: "list_all (\<lambda>c. \<not> isLineTerminator c) ws"
    using assms(4) by (simp_all add: list_all_iff)
  show m: "matchSetModel (js ''/set_model '' @ ws) = Some ws"
    using assms(3) l by (rule matchSetModel_rest)
  show t: "trim ws = []" using w by (rule trim_all_blank)
  have p: "processUpdate cfg s msg env = onSetModel cfg s msg ws"
    using assms(2) m by (rule processUpdate_set_model)
  have e: "trim (js ''Switched model to: '') \<noteq> []"
    using nonblank_switched [of "[]"] by simp
  show "processUpdate cfg s msg env =
           (if [] \<in> set (map model_id (availableModels s))
            then (s\<lparr>currentModelId := []\<rparr>,
                  [BotSendMessage (chat_id msg) (js ''Switched model to: '')])
            else (s, [BotSendMessage (chat_id msg)
                        (js ''Error: Model ID '' @ [34, 34]
                         @ js '' not found. Use /list_models to see available models.'')]))"
  proof (cases "find (\<lambda>m. model_id m = []) (availableModels s)")
    case None
    then have "[] \<notin> set (map model_id (availableModels s))" by (simp add: find_model_None)
    with None show ?thesis
      using assms(1)
      by (simp add: p t onSetModel_def Let_def sendMessage_sends nonblank_not_found)
  next
    case (Some found)
    then have i: "model_id found = []" by (rule find_model_id)
    have "[] \<in> set (map model_id (availableModels s))"
      using find_model_None [of "[]" "availableModels s"] Some by auto
    with Some i e show ?thesis
      using assms(1) by (simp add: p t onSetModel_def Let_def sendMessage_sends)
  qed
qed

theorem C10_blank_argument_witness:
  "isAuthorized 7 (Num 7)
   \<and> [32, 9] \<noteq> ([] :: jsstring)
   \<and> list_all (\<lambda>c. isWhiteSpace c \<and> \<not> isLineTerminator c) [32, 9]
   \<and> [] \<notin> set (map model_id [defaultEntry (js ''m'')])
   \<and> matchSetModel (js ''/set_model '' @ [32, 9]) = Some [32, 9]
   \<and> trim [32, 9] = []
   \<and> processUpdate
        \<lparr>authorizedUserId = Num 7, deepSeekApiEndpoint = js ''e'', deepSeekApiKey = js ''k''\<rparr>
        \<lparr>currentMode = js ''prompt'', availableModels = [defaultEntry (js ''m'')],
         currentModelId = js ''m''\<rparr>
        \<lparr>chat_id = 1, from_id = 7, msg_text = Some (js ''/set_model '' @ [32, 9])\<rparr>
        \<lparr>ack_result = Inr 5, settings_after_ack = None,
         fetch_result = FetchRejects (JsError [] []), edit_fails = False\<rparr>
      = (\<lparr>currentMode = js ''prompt'', availableModels = [defaultEntry (js ''m'')],
          currentModelId = js ''m''\<rparr>,
         [BotSendMessage 1
            (js ''Error: Model ID '' @ [34, 34]
             @ js '' not found. Use /list_models to see available models.'')])"
proof -
  let ?msg = "\<lparr>chat_id = 1, from_id = 7, msg_text = Some (js ''/set_model '' @ [32, 9])\<rparr>"
  let ?cfg = "\<lparr>authorizedUserId = Num 7, deepSeekApiEndpoint = js ''e'',
               deepSeekApiKey = js ''k''\<rparr>"
  have a: "isAuthorized 7 (Num 7)" by (simp add: isAuthorized_def)
  have a': "isAuthorized (from_id ?msg) (authorizedUserId ?cfg)" using a by simp
  have m: "msg_text ?msg = Some (js ''/set_model '' @ [32, 9])" by simp
  have n: "[32, 9] \<noteq> ([] :: jsstring)" by simp
  have b: "list_all (\<lambda>c. isWhiteSpace c \<and> \<not> isLineTerminator c) [32, 9]"
    by (simp add: isWhiteSpace_def isLineTerminator_def)
  have d: "[] \<notin> set (map model_id [defaultEntry (js ''m'')])"
    by (simp add: defaultEntry_def js_def)
  note T = C10_blank_argument [OF a' m n b,
      of "\<lparr>currentMode = js ''prompt'', availableModels = [defaultEntry (js ''m'')],
           currentModelId = js ''m''\<rparr>"
         "\<lparr>ack_result = Inr 5, settings_after_ack = None,
           fetch_result = FetchRejects (JsError [] []), edit_fails = False\<rparr>"]
  note T1 = T [THEN conjunct1]
  note T2 = T [THEN conjunct2, THEN conjunct1]
  note T3 = T [THEN conjunct2, THEN conjunct2]
  have r: "processUpdate ?cfg
        \<lparr>currentMode = js ''prompt'', availableModels = [defaultEntry (js ''m'')],
         currentModelId = js ''m''\<rparr>
        ?msg
        \<lparr>ack_result = Inr 5, settings_after_ack = None,
         fetch_result = FetchRejects (JsError [] []), edit_fails = False\<rparr>
      = (\<lparr>currentMode = js ''prompt'', availableModels = [defaultEntry (js ''m'')],
          currentModelId = js ''m''\<rparr>,
         [BotSendMessage 1
            (js ''Error: Model ID '' @ [34, 34]
             @ js '' not found. Use /list_models to see available models.'')])"
    using T3 d by simp
  show ?thesis
    using a b d T1 T2 r by simp
qed

text \<open>
  Claim C1, at the text "/start abc" from the authorized sender, with the remote call
  answering "hello". The claim says that a text beginning with "/start" produces only the
  start reply and never reaches \<open>callDeepSeekAPI\<close>. The \<open>/start\<close> pattern matches the text
  and its handler replies; but the command check of the \<open>message\<close> handler compares the whole
  text with "/start", so this text also goes through step 4: acknowledgment, one HTTP
  request carrying "/start abc" as the user content, and the edit of the acknowledgment.
\<close>

theorem C1_start_suffix_falls_through:
  "processUpdate
     \<lparr>authorizedUserId = Num 7, deepSeekApiEndpoint = js ''e'', deepSeekApiKey = js ''k''\<rparr>
     \<lparr>currentMode = js ''chat'', availableModels = [defaultEntry (js ''m'')],
      currentModelId = js ''m''\<rparr>
     \<lparr>chat_id = 1, from_id = 7, msg_text = Some (js ''/start abc'')\<rparr>
     \<lparr>ack_result = Inr 5, settings_after_ack = None,
      fetch_result = Responds \<lparr>status = 200, text_result = Inl (JsError [] []),
                                json_result = Inr (GuardContent (js ''hello''))\<rparr>,
      edit_fails = False\<rparr>
   = (\<lparr>currentMode = js ''chat'', availableModels = [defaultEntry (js ''m'')],
       currentModelId = js ''m''\<rparr>,
      [BotSendMessage 1 (js ''Processing in chat mode with m...''),
       HttpPost (mkRequest (js ''e'') (js ''k'') (js ''m'')
                   [\<lparr>role = js ''system'', content = Flat chatSystemPrompt\<rparr>,
                    \<lparr>role = js ''user'', content = Flat (js ''/start abc'')\<rparr>]),
       BotEditMessageText 1 5 (js ''hello''),
       BotSendMessage 1 (js ''You are authorized.'')])"
proof -
  have t: "trim (js ''/start abc'') = js ''/start abc''" "trim (js ''hello'') = js ''hello''"
    by (simp_all add: trim_def js_def isWhiteSpace_def isLineTerminator_def)
  have m: "modeSettings (js ''chat'') = Some (chatSystemPrompt, [])"
    by (simp add: modeSettings_def js_def)
  have c: "callDeepSeekAPI (js ''/start abc'') (js ''chat'') (js ''m'') (js ''e'') (js ''k'')
             (Responds \<lparr>status = 200, text_result = Inl (JsError [] []),
                        json_result = Inr (GuardContent (js ''hello''))\<rparr>)
           = (js ''hello'',
              [mkRequest (js ''e'') (js ''k'') (js ''m'')
                 [\<lparr>role = js ''system'', content = Flat chatSystemPrompt\<rparr>,
                  \<lparr>role = js ''user'', content = Flat (js ''/start abc'')\<rparr>]])"
    by (simp add: callDeepSeekAPI_def Let_def t m handleOutcome_def response_ok_def orElse_def)
       (simp add: js_def)
  have p: "processText
             \<lparr>authorizedUserId = Num 7, deepSeekApiEndpoint = js ''e'', deepSeekApiKey = js ''k''\<rparr>
             \<lparr>currentMode = js ''chat'', availableModels = [defaultEntry (js ''m'')],
              currentModelId = js ''m''\<rparr>
             1 (js ''/start abc'')
             \<lparr>ack_result = Inr 5, settings_after_ack = None,
              fetch_result = Responds \<lparr>status = 200, text_result = Inl (JsError [] []),
                                json_result = Inr (GuardContent (js ''hello''))\<rparr>,
              edit_fails = False\<rparr>
           = [BotSendMessage 1 (js ''Processing in chat mode with m...''),
              HttpPost (mkRequest (js ''e'') (js ''k'') (js ''m'')
                   [\<lparr>role = js ''system'', content = Flat chatSystemPrompt\<rparr>,
                    \<lparr>role = js ''user'', content = Flat (js ''/start abc'')\<rparr>]),
              BotEditMessageText 1 5 (js ''hello'')]"
    by (simp add: processText_def resumedSettings_def c relay_def orElse_def ackText_def)
       (simp add: js_def)
  have s: "matchStart (js ''/start abc'')" by (simp add: matchStart_def js_def)
  have n: "js ''/start abc'' \<noteq> []" "js ''/start abc'' \<noteq> js ''/help''"
    "js ''/start abc'' \<noteq> js ''/prompt_mode''" "js ''/start abc'' \<noteq> js ''/commit_mode''"
    "js ''/start abc'' \<noteq> js ''/chat_mode''" "js ''/start abc'' \<noteq> js ''/list_models''"
    "js ''/start abc'' \<notin> set commands" "\<not> startsWith (js ''/start abc'') (js ''/set_model '')"
    "matchSetModel (js ''/start abc'') = None"
    by (simp_all add: js_def commands_def startsWith_def matchSetModel_def)
  show ?thesis
    using s n
    by (simp add: processUpdate_def Let_def whenMatch_False whenMatch_True onMessage_def p
        onStart_def isAuthorized_def sendMessage_sends nonblank_authorized)
qed


section \<open>The active model id\<close>

lemma whenMatch_availableModels:
  "(\<And>s. availableModels (fst (cb s)) = availableModels s)
   \<Longrightarrow> availableModels (fst (whenMatch b cb acc)) = availableModels (fst acc)"
  by (simp add: whenMatch_def split: prod.split) (metis fst_conv)

lemma whenMatch_currentModelId:
  "(\<And>s. currentModelId (fst (cb s)) = currentModelId s)
   \<Longrightarrow> currentModelId (fst (whenMatch b cb acc)) = currentModelId (fst acc)"
  by (simp add: whenMatch_def split: prod.split) (metis fst_conv)

lemma handlers_availableModels:
  "availableModels (fst (onStart cfg s msg)) = availableModels s"
  "availableModels (fst (onHelp cfg s msg)) = availableModels s"
  "availableModels (fst (onPromptMode cfg s msg)) = availableModels s"
  "availableModels (fst (onCommitMode cfg s msg)) = availableModels s"
  "availableModels (fst (onChatMode cfg s msg)) = availableModels s"
  "availableModels (fst (onListModels cfg s msg)) = availableModels s"
  "availableModels (fst (onSetModel cfg s msg a)) = availableModels s"
  by (simp_all add: onStart_def onHelp_def onPromptMode_def onCommitMode_def onChatMode_def
      onListModels_def onSetModel_def Let_def split: option.split)

lemma handlers_currentModelId:
  "currentModelId (fst (onStart cfg s msg)) = currentModelId s"
  "currentModelId (fst (onHelp cfg s msg)) = currentModelId s"
  "currentModelId (fst (onPromptMode cfg s msg)) = currentModelId s"
  "currentModelId (fst (onCommitMode cfg s msg)) = currentModelId s"
  "currentModelId (fst (onChatMode cfg s msg)) = currentModelId s"
  "currentModelId (fst (onListModels cfg s msg)) = currentModelId s"
  by (simp_all add: onStart_def onHelp_def onPromptMode_def onCommitMode_def onChatMode_def
      onListModels_def)

lemma onSetModel_currentModelId:
  "currentModelId (fst (onSetModel cfg s msg a)) =
     (if isAuthorized (from_id msg) (authorizedUserId cfg)
         \<and> trim a \<in> set (map model_id (availableModels s))
      then trim a else currentModelId s)"
proof (cases "find (\<lambda>m. model_id m = trim a) (availableModels s)")
  case None
  then have "trim a \<notin> set (map model_id (availableModels s))" by (simp add: find_model_None)
  with None show ?thesis by (simp add: onSetModel_def Let_def)
next
  case (Some m)
  then have i: "model_id m = trim a" by (rule find_model_id)
  have "trim a \<in> set (map model_id (availableModels s))"
    using find_model_None [of "trim a" "availableModels s"] Some by auto
  with Some i show ?thesis by (simp add: onSetModel_def Let_def)
qed

text \<open>No handler writes the catalog.\<close>

lemma processUpdate_availableModels:
  "availableModels (fst (processUpdate cfg s msg env)) = availableModels s"
  by (simp add: processUpdate_def Let_def whenMatch_availableModels handlers_availableModels
      split: option.split)

text \<open>Only the model-switch handler writes the active model id.\<close>

lemma processUpdate_currentModelId:
  "currentModelId (fst (processUpdate cfg s msg env)) =
     (case msg_text msg of
        None \<Rightarrow> currentModelId s
      | Some t \<Rightarrow>
          (case matchSetModel t of
             None \<Rightarrow> currentModelId s
           | Some a \<Rightarrow>
               if isAuthorized (from_id msg) (authorizedUserId cfg)
                  \<and> trim a \<in> set (map model_id (availableModels s))
               then trim a else currentModelId s))"
proof (cases "msg_text msg")
  case None
  then show ?thesis by (simp add: processUpdate_def)
next
  case (Some t)
  show ?thesis
  proof (cases "matchSetModel t")
    case None
    with Some show ?thesis
      by (simp add: processUpdate_def Let_def whenMatch_currentModelId handlers_currentModelId)
  next
    case (Some a)
    with \<open>msg_text msg = Some t\<close> show ?thesis
      by (simp add: processUpdate_set_model onSetModel_currentModelId)
  qed
qed

lemma run_catalog: "availableModels (run cfg s evs) = availableModels s"
  by (induction cfg s evs rule: run.induct) (simp_all add: processUpdate_availableModels)

lemma run_active_model:
  "currentModelId s \<in> set (map model_id (availableModels s))
   \<Longrightarrow> currentModelId (run cfg s evs) \<in> set (map model_id (availableModels s))"
proof (induction cfg s evs rule: run.induct)
  case (1 cfg s)
  then show ?case by simp
next
  case (2 cfg s msg env rest)
  have "currentModelId (fst (processUpdate cfg s msg env))
          \<in> set (map model_id (availableModels s))"
    using "2.prems" by (simp add: processUpdate_currentModelId split: option.split)
  then show ?case
    using "2.IH" by (simp add: processUpdate_availableModels)
qed

lemma list_ex_model_id:
  "list_ex (\<lambda>m. model_id m = d) ms \<longleftrightarrow> d \<in> set (map model_id ms)"
  by (induction ms) auto

lemma startup_cases:
  assumes "startup ev file = Some (cfg, s0)"
  obtains d where "DEEPSEEK_MODEL ev = Some d" "availableModels s0 = [defaultEntry d]"
      "currentModelId s0 = d"
  | d ms where "DEEPSEEK_MODEL ev = Some d" "availableModels s0 = ms"
      "d \<in> set (map model_id ms)" "currentModelId s0 = d"
  | d m rest where "DEEPSEEK_MODEL ev = Some d" "availableModels s0 = m # rest"
      "d \<notin> set (map model_id (m # rest))" "currentModelId s0 = model_id m"
  using assms
  by (auto simp: startup_def Let_def list_ex_model_id
      split: if_splits models_file.splits list.splits option.splits)

lemma startup_active_model:
  assumes "startup ev file = Some (cfg, s0)"
  shows "\<exists>d m rest. DEEPSEEK_MODEL ev = Some d \<and> availableModels s0 = m # rest
           \<and> currentModelId s0 = (if d \<in> set (map model_id (m # rest)) then d else model_id m)"
    and "currentModelId s0 \<in> set (map model_id (availableModels s0))"
proof -
  show "\<exists>d m rest. DEEPSEEK_MODEL ev = Some d \<and> availableModels s0 = m # rest
           \<and> currentModelId s0 = (if d \<in> set (map model_id (m # rest)) then d else model_id m)"
  proof (rule startup_cases [OF assms])
    fix d
    assume "DEEPSEEK_MODEL ev = Some d" "availableModels s0 = [defaultEntry d]"
      "currentModelId s0 = d"
    then show ?thesis by (simp add: defaultEntry_def)
  next
    fix d ms
    assume h: "DEEPSEEK_MODEL ev = Some d" "availableModels s0 = ms"
      "d \<in> set (map model_id ms)" "currentModelId s0 = d"
    then obtain m rest where "ms = m # rest" by (cases ms) auto
    with h show ?thesis by auto
  next
    fix d m rest
    assume "DEEPSEEK_MODEL ev = Some d" "availableModels s0 = m # rest"
      "d \<notin> set (map model_id (m # rest))" "currentModelId s0 = model_id m"
    then show ?thesis by auto
  qed
  show "currentModelId s0 \<in> set (map model_id (availableModels s0))"
    by (rule startup_cases [OF assms]) (auto simp: defaultEntry_def)
qed

text \<open>
  Claim C3. After a start-up that does not exit, the catalog is not empty, and the active
  model id is the configured default id when the catalog holds an entry with that id, and the
  id of the catalog's first entry otherwise. After any sequence of updates the catalog is the
  one of start-up and the active model id is the id of one of its entries. An update changes
  the active model id only when it is a model-switch command of the authorized sender whose
  trimmed argument is a catalog id, and then to that id.
\<close>

theorem C3_active_model_in_catalog:
  assumes "startup ev file = Some (cfg, s0)"
  shows "(\<exists>d m rest. DEEPSEEK_MODEL ev = Some d \<and> availableModels s0 = m # rest
            \<and> currentModelId s0 = (if d \<in> set (map model_id (m # rest)) then d else model_id m))
       \<and> (\<forall>evs. availableModels (run cfg s0 evs) = availableModels s0
              \<and> currentModelId (run cfg s0 evs) \<in> set (map model_id (availableModels s0)))
       \<and> (\<forall>s msg env.
            currentModelId (fst (processUpdate cfg s msg env)) \<noteq> currentModelId s \<longrightarrow>
            isAuthorized (from_id msg) (authorizedUserId cfg)
            \<and> (\<exists>t arg. msg_text msg = Some t \<and> matchSetModel t = Some arg
                  \<and> trim arg \<in> set (map model_id (availableModels s))
                  \<and> currentModelId (fst (processUpdate cfg s msg env)) = trim arg))"
proof (intro conjI allI impI)
  show "\<exists>d m rest. DEEPSEEK_MODEL ev = Some d \<and> availableModels s0 = m # rest
          \<and> currentModelId s0 = (if d \<in> set (map model_id (m # rest)) then d else model_id m)"
    using assms by (rule startup_active_model)
  fix evs
  show "availableModels (run cfg s0 evs) = availableModels s0" by (rule run_catalog)
  show "currentModelId (run cfg s0 evs) \<in> set (map model_id (availableModels s0))"
    using startup_active_model(2) [OF assms] by (rule run_active_model)
next
  fix s msg env
  assume c: "currentModelId (fst (processUpdate cfg s msg env)) \<noteq> currentModelId s"
  then show "isAuthorized (from_id msg) (authorizedUserId cfg)"
    by (auto simp: processUpdate_currentModelId split: option.splits if_splits)
  from c show "\<exists>t arg. msg_text msg = Some t \<and> matchSetModel t = Some arg
                  \<and> trim arg \<in> set (map model_id (availableModels s))
                  \<and> currentModelId (fst (processUpdate cfg s msg env)) = trim arg"
    by (auto simp: processUpdate_currentModelId split: option.splits if_splits)
qed

theorem C3_active_model_in_catalog_witness:
  "let ev = \<lparr>TELEGRAM_BOT_TOKEN = Some (js ''t''), AUTHORIZED_USER_ID = Num 7,
             DEEPSEEK_API_KEY = Some (js ''k''), DEEPSEEK_API_ENDPOINT = Some (js ''e''),
             DEEPSEEK_MODEL = Some (js ''m'')\<rparr>;
       file = Loaded [defaultEntry (js ''q''), defaultEntry (js ''r'')];
       cfg = \<lparr>authorizedUserId = Num 7, deepSeekApiEndpoint = js ''e'',
              deepSeekApiKey = js ''k''\<rparr>;
       s0 = \<lparr>currentMode = js ''prompt'',
             availableModels = [defaultEntry (js ''q''), defaultEntry (js ''r'')],
             currentModelId = js ''q''\<rparr>;
       evs = [(\<lparr>chat_id = 1, from_id = 7, msg_text = Some (js ''/set_model r'')\<rparr>,
               \<lparr>ack_result = Inr 5, settings_after_ack = None, fetch_result = FetchRejects (JsError [] []),
                edit_fails = False\<rparr>)]
   in startup ev file = Some (cfg, s0)
      \<and> availableModels (run cfg s0 evs) = availableModels s0
      \<and> currentModelId (run cfg s0 evs) \<in> set (map model_id (availableModels s0))"
proof -
  let ?ev = "\<lparr>TELEGRAM_BOT_TOKEN = Some (js ''t''), AUTHORIZED_USER_ID = Num 7,
             DEEPSEEK_API_KEY = Some (js ''k''), DEEPSEEK_API_ENDPOINT = Some (js ''e''),
             DEEPSEEK_MODEL = Some (js ''m'')\<rparr>"
  let ?file = "Loaded [defaultEntry (js ''q''), defaultEntry (js ''r'')]"
  let ?cfg = "\<lparr>authorizedUserId = Num 7, deepSeekApiEndpoint = js ''e'',
              deepSeekApiKey = js ''k''\<rparr>"
  let ?s0 = "\<lparr>currentMode = js ''prompt'',
             availableModels = [defaultEntry (js ''q''), defaultEntry (js ''r'')],
             currentModelId = js ''q''\<rparr>"
  let ?evs = "[(\<lparr>chat_id = 1, from_id = 7, msg_text = Some (js ''/set_model r'')\<rparr>,
               \<lparr>ack_result = Inr 5, settings_after_ack = None, fetch_result = FetchRejects (JsError [] []),
                edit_fails = False\<rparr>)]"
  have st: "startup ?ev ?file = Some (?cfg, ?s0)"
    by (simp add: startup_def Let_def falsyVar_def falsyNumber_def defaultEntry_def js_def)
  note T = C3_active_model_in_catalog [OF st]
  from T have r: "availableModels (run ?cfg ?s0 ?evs) = availableModels ?s0
      \<and> currentModelId (run ?cfg ?s0 ?evs) \<in> set (map model_id (availableModels ?s0))"
    by blast
  show ?thesis
    unfolding Let_def using st r by blast
qed


section \<open>Error responses and the relay\<close>

lemma friendlyError_status: "sublist (digits st) (friendlyError st parsed)"
proof -
  have b: "sublist (digits st)
             (js ''Sorry, I encountered an API error ('' @ digits st @ js '').'' @ rest)" for rest
    by (metis sublist_appendI)
  show ?thesis
    using b [of "[]"] b
    by (simp add: friendlyError_def Let_def split: option.split json.split)
qed

lemma friendlyError_message:
  assumes "parsed = Some errorJson" and "getProp errorJson (js ''error'') = Some err"
    and "getProp err (js ''message'') = Some (JStr m)"
  shows "sublist m (friendlyError st parsed)"
proof (cases "m = []")
  case True
  then show ?thesis by simp
next
  case False
  from assms(2) obtain kvs where j: "errorJson = JObj kvs" by (cases errorJson) simp_all
  from assms(3) obtain es where e: "err = JObj es" by (cases err) simp_all
  have "friendlyError st parsed =
          (js ''Sorry, I encountered an API error ('' @ digits st @ js '').'' @ js '' Details: '')
          @ m @ []"
    using assms False by (simp add: friendlyError_def Let_def j e)
  then show ?thesis by (metis sublist_appendI)
qed

lemma call_not_ok:
  assumes "trim inputText \<noteq> []" and "modeSettings mode \<noteq> None"
    and "\<not> response_ok r" and "text_result r = Inr (errorBody, parsed)"
  shows "fst (callDeepSeekAPI inputText mode modelId endpoint apiKey (Responds r))
           = friendlyError (status r) parsed"
    and "fst (callOpenRouterAPI inputText mode modelId endpoint apiKey (Responds r))
           = friendlyError (status r) parsed"
  using assms
  by (auto simp: callDeepSeekAPI_def callOpenRouterAPI_def Let_def handleOutcome_def)

text \<open>
  Claim C8, as stated, fails for a response whose status is not a success and whose body
  cannot be read: \<open>await response.text()\<close> rejects, the outer \<open>catch\<close> takes over, and the
  returned text is the network-error text, without the status code. Here the status is 500
  and the read rejects with a \<open>TypeError\<close> whose message is "terminated".
\<close>

theorem C8_error_status_counterexample:
  "\<not> response_ok
        \<lparr>status = 500, text_result = Inl (JsError (js ''TypeError'') (js ''terminated'')),
         json_result = Inl (JsError (js ''TypeError'') (js ''terminated''))\<rparr>
   \<and> fst (callDeepSeekAPI (js ''hi'') (js ''chat'') (js ''m'') (js ''e'') (js ''k'')
          (Responds
            \<lparr>status = 500, text_result = Inl (JsError (js ''TypeError'') (js ''terminated'')),
             json_result = Inl (JsError (js ''TypeError'') (js ''terminated''))\<rparr>))
       = js ''Sorry, I encountered a network or processing error while contacting the AI. Details: terminated''
   \<and> fst (callOpenRouterAPI (js ''hi'') (js ''chat'') (js ''m'') (js ''e'') (js ''k'')
          (Responds
            \<lparr>status = 500, text_result = Inl (JsError (js ''TypeError'') (js ''terminated'')),
             json_result = Inl (JsError (js ''TypeError'') (js ''terminated''))\<rparr>))
       = js ''Sorry, I encountered a network or processing error while contacting the AI. Details: terminated''
   \<and> digits 500 = js ''500''
   \<and> \<not> sublist (js ''500'')
         (js ''Sorry, I encountered a network or processing error while contacting the AI. Details: terminated'')"
proof -
  let ?r = "\<lparr>status = 500, text_result = Inl (JsError (js ''TypeError'') (js ''terminated'')),
             json_result = Inl (JsError (js ''TypeError'') (js ''terminated''))\<rparr>"
  have t: "trim (js ''hi'') = js ''hi''"
    by (simp add: trim_def js_def isWhiteSpace_def isLineTerminator_def)
  have m: "modeSettings (js ''chat'') = Some (chatSystemPrompt, [])"
    by (simp add: modeSettings_def js_def)
  have h: "handleOutcome (Responds ?r)
       = js ''Sorry, I encountered a network or processing error while contacting the AI. Details: terminated''"
    by (simp add: handleOutcome_def response_ok_def catchError_def) (simp add: js_def)
  have n: "js ''hi'' \<noteq> []" by (simp add: js_def)
  have c: "fst (callDeepSeekAPI (js ''hi'') (js ''chat'') (js ''m'') (js ''e'') (js ''k'')
                  (Responds ?r)) = handleOutcome (Responds ?r)"
    "fst (callOpenRouterAPI (js ''hi'') (js ''chat'') (js ''m'') (js ''e'') (js ''k'')
                  (Responds ?r)) = handleOutcome (Responds ?r)"
    using n by (simp_all add: callDeepSeekAPI_def callOpenRouterAPI_def Let_def t m)
  have d: "digits 500 = js ''500''" by (simp add: digits.simps js_def)
  have x: "\<not> sublist (js ''500'')
         (js ''Sorry, I encountered a network or processing error while contacting the AI. Details: terminated'')"
    by (simp add: js_def sublist_Cons_right)
  show ?thesis using c h d x by (simp add: response_ok_def)
qed

text \<open>
  Claim C8, amended. Take a remote call that is made (the payload is not blank and the mode
  is recognized) and answered by a response whose status is not a success. Then
  \<open>callDeepSeekAPI\<close> and \<open>callOpenRouterAPI\<close> return a string (the model's functions return
  where the source returns; every throw of the source is a branch of \<open>handleOutcome\<close>). When
  the body text is received, that string contains the decimal digits of the status code, and
  when the body parses as JSON with a member \<open>error\<close> that has a member \<open>message\<close> that is a
  string, it contains that message too. When reading the body fails, the string is the
  text of the outer \<open>catch\<close> for the error of the read. The witness is HTTP 429 with the body
  \<open>{"error":{"message":"rate limited"}}\<close>.
\<close>

theorem C8_error_status:
  assumes "trim inputText \<noteq> []" and "modeSettings mode \<noteq> None"
    and "\<not> response_ok r"
  shows "\<forall>result \<in> {fst (callDeepSeekAPI inputText mode modelId endpoint apiKey (Responds r)),
                      fst (callOpenRouterAPI inputText mode modelId endpoint apiKey (Responds r))}.
           (case text_result r of
              Inl readError \<Rightarrow> result = catchError readError
            | Inr (errorBody, parsed) \<Rightarrow>
                sublist (digits (status r)) result
                \<and> (\<forall>errorJson err m.
                      parsed = Some errorJson \<and> getProp errorJson (js ''error'') = Some err
                      \<and> getProp err (js ''message'') = Some (JStr m)
                      \<longrightarrow> sublist m result))"
proof (cases "text_result r")
  case (Inl readError)
  then show ?thesis
    using assms
    by (auto simp: callDeepSeekAPI_def callOpenRouterAPI_def Let_def handleOutcome_def)
next
  case (Inr b)
  then obtain errorBody parsed where b: "text_result r = Inr (errorBody, parsed)"
    by (cases b) simp
  show ?thesis
    using friendlyError_status [of "status r" parsed]
      friendlyError_message [of parsed _ _ _ "status r"]
    by (simp add: call_not_ok [OF assms b] b)
qed

theorem C8_error_status_witness:
  "trim (js ''hi'') \<noteq> [] \<and> modeSettings (js ''chat'') \<noteq> None
   \<and> \<not> response_ok
         \<lparr>status = 429,
          text_result = Inr ([123, 34] @ js ''error'' @ [34, 58, 123, 34] @ js ''message''
                             @ [34, 58, 34] @ js ''rate limited'' @ [34, 125, 125],
                Some (JObj [(js ''error'', JObj [(js ''message'', JStr (js ''rate limited''))])])),
          json_result = Inl (JsError [] [])\<rparr>
   \<and> sublist (js ''429'')
        (fst (callDeepSeekAPI (js ''hi'') (js ''chat'') (js ''m'') (js ''e'') (js ''k'')
          (Responds
            \<lparr>status = 429,
             text_result = Inr ([123, 34] @ js ''error'' @ [34, 58, 123, 34] @ js ''message''
                                @ [34, 58, 34] @ js ''rate limited'' @ [34, 125, 125],
                   Some (JObj [(js ''error'', JObj [(js ''message'', JStr (js ''rate limited''))])])),
             json_result = Inl (JsError [] [])\<rparr>)))
   \<and> sublist (js ''rate limited'')
        (fst (callDeepSeekAPI (js ''hi'') (js ''chat'') (js ''m'') (js ''e'') (js ''k'')
          (Responds
            \<lparr>status = 429,
             text_result = Inr ([123, 34] @ js ''error'' @ [34, 58, 123, 34] @ js ''message''
                                @ [34, 58, 34] @ js ''rate limited'' @ [34, 125, 125],
                   Some (JObj [(js ''error'', JObj [(js ''message'', JStr (js ''rate limited''))])])),
             json_result = Inl (JsError [] [])\<rparr>)))
   \<and> fst (callDeepSeekAPI (js ''hi'') (js ''chat'') (js ''m'') (js ''e'') (js ''k'')
          (Responds
            \<lparr>status = 429,
             text_result = Inr ([123, 34] @ js ''error'' @ [34, 58, 123, 34] @ js ''message''
                                @ [34, 58, 34] @ js ''rate limited'' @ [34, 125, 125],
                   Some (JObj [(js ''error'', JObj [(js ''message'', JStr (js ''rate limited''))])])),
             json_result = Inl (JsError [] [])\<rparr>))
       = js ''Sorry, I encountered an API error (429). Details: rate limited''"
proof -
  let ?p = "Some (JObj [(js ''error'', JObj [(js ''message'', JStr (js ''rate limited''))])])"
  let ?b = "[123, 34] @ js ''error'' @ [34, 58, 123, 34] @ js ''message''
              @ [34, 58, 34] @ js ''rate limited'' @ [34, 125, 125]"
  let ?r = "\<lparr>status = 429, text_result = Inr (?b, ?p), json_result = Inl (JsError [] [])\<rparr>"
  have a: "trim (js ''hi'') \<noteq> []"
    by (simp add: trim_def js_def isWhiteSpace_def isLineTerminator_def)
  have b: "modeSettings (js ''chat'') \<noteq> None" by (simp add: modeSettings_def js_def)
  have c: "\<not> response_ok ?r" by (simp add: response_ok_def)
  have d: "text_result ?r = Inr (?b, ?p)" by simp
  have e: "digits 429 = js ''429''" by (simp add: digits.simps js_def)
  note T = C8_error_status [OF a b c, of "js ''m''" "js ''e''" "js ''k''"]
  from T have s1: "sublist (js ''429'')
      (fst (callDeepSeekAPI (js ''hi'') (js ''chat'') (js ''m'') (js ''e'') (js ''k'') (Responds ?r)))"
    using e by simp
  from T have s2: "sublist (js ''rate limited'')
      (fst (callDeepSeekAPI (js ''hi'') (js ''chat'') (js ''m'') (js ''e'') (js ''k'') (Responds ?r)))"
    by simp
  have f: "friendlyError 429 ?p = js ''Sorry, I encountered an API error (429). Details: rate limited''"
    by (simp add: friendlyError_def Let_def e) (simp add: js_def)
  have v: "fst (callDeepSeekAPI (js ''hi'') (js ''chat'') (js ''m'') (js ''e'') (js ''k'') (Responds ?r))
      = js ''Sorry, I encountered an API error (429). Details: rate limited''"
    using call_not_ok(1) [OF a b c d, of "js ''m''" "js ''e''" "js ''k''"] f by simp
  show ?thesis using a b c s1 s2 v by simp
qed

text \<open>
  Claim C9. Take a text that reaches step 4 of the \<open>message\<close> handler, with the
  acknowledgment sent (the send resolved to a message whose \<open>message_id\<close> is not zero, as
  Telegram's are). Let the final text be the result of \<open>callDeepSeekAPI\<close>, or the fixed
  "Sorry, an error occurred and no response was generated." when that result is the empty
  string. Then, after the acknowledgment and the request (if one is sent), the handler edits
  the acknowledgment to the final text, and when the edit fails it sends a new message with
  that same final text. The result of \<open>callDeepSeekAPI\<close> always has a non-blank character:
  no run takes the substitution (for which the fallback send of the source names a different
  fixed string) nor the blank-text guard of the \<open>sendMessage\<close> helper.
\<close>

theorem C9_relay_fallback:
  assumes "ack_result env = Inr message_id" and "message_id \<noteq> 0"
  shows "let aiResponse = fst (callDeepSeekAPI txt (currentMode (resumedSettings s env))
                                 (currentModelId (resumedSettings s env))
                                 (deepSeekApiEndpoint cfg) (deepSeekApiKey cfg) (fetch_result env));
             reqs = snd (callDeepSeekAPI txt (currentMode (resumedSettings s env))
                           (currentModelId (resumedSettings s env))
                           (deepSeekApiEndpoint cfg) (deepSeekApiKey cfg) (fetch_result env));
             finalText = (if aiResponse = []
                          then js ''Sorry, an error occurred and no response was generated.''
                          else aiResponse)
         in trim aiResponse \<noteq> []
            \<and> processText cfg s chatId txt env =
                BotSendMessage chatId (ackText s) # map HttpPost reqs
                @ BotEditMessageText chatId message_id finalText
                # (if edit_fails env then [BotSendMessage chatId finalText] else [])"
proof -
  let ?c = "callDeepSeekAPI txt (currentMode (resumedSettings s env))
              (currentModelId (resumedSettings s env))
              (deepSeekApiEndpoint cfg) (deepSeekApiKey cfg) (fetch_result env)"
  have n: "trim (fst ?c) \<noteq> []" by (rule callDeepSeekAPI_nonblank)
  then have e: "fst ?c \<noteq> []" using trim_Nil by auto
  show ?thesis
    using assms n e
    by (simp add: processText_def relay_def orElse_def sendMessage_sends Let_def case_prod_beta)
qed

theorem C9_relay_fallback_witness:
  "ack_result
     \<lparr>ack_result = Inr 5, settings_after_ack = None,
      fetch_result = FetchRejects (JsError (js ''AbortError'') []), edit_fails = True\<rparr> = Inr 5
   \<and> (5 :: nat) \<noteq> 0
   \<and> processText
        \<lparr>authorizedUserId = Num 7, deepSeekApiEndpoint = js ''e'', deepSeekApiKey = js ''k''\<rparr>
        \<lparr>currentMode = js ''chat'', availableModels = [defaultEntry (js ''m'')],
         currentModelId = js ''m''\<rparr>
        1 (js ''hi'')
        \<lparr>ack_result = Inr 5, settings_after_ack = None,
         fetch_result = FetchRejects (JsError (js ''AbortError'') []), edit_fails = True\<rparr>
      = [BotSendMessage 1 (js ''Processing in chat mode with m...''),
         HttpPost (mkRequest (js ''e'') (js ''k'') (js ''m'')
                     [\<lparr>role = js ''system'', content = Flat chatSystemPrompt\<rparr>,
                      \<lparr>role = js ''user'', content = Flat (js ''hi'')\<rparr>]),
         BotEditMessageText 1 5 (js ''Sorry, the request to the AI timed out.''),
         BotSendMessage 1 (js ''Sorry, the request to the AI timed out.'')]"
proof -
  let ?env = "\<lparr>ack_result = Inr 5, settings_after_ack = None,
      fetch_result = FetchRejects (JsError (js ''AbortError'') []), edit_fails = True\<rparr>"
  have a: "ack_result ?env = Inr 5" by simp
  have b: "(5 :: nat) \<noteq> 0" by simp
  have t: "trim (js ''hi'') = js ''hi''"
    by (simp add: trim_def js_def isWhiteSpace_def isLineTerminator_def)
  have m: "modeSettings (js ''chat'') = Some (chatSystemPrompt, [])"
    by (simp add: modeSettings_def js_def)
  have c: "callDeepSeekAPI (js ''hi'') (js ''chat'') (js ''m'') (js ''e'') (js ''k'')
             (FetchRejects (JsError (js ''AbortError'') []))
           = (js ''Sorry, the request to the AI timed out.'',
              [mkRequest (js ''e'') (js ''k'') (js ''m'')
                 [\<lparr>role = js ''system'', content = Flat chatSystemPrompt\<rparr>,
                  \<lparr>role = js ''user'', content = Flat (js ''hi'')\<rparr>]])"
    by (simp add: callDeepSeekAPI_def Let_def t m handleOutcome_def catchError_def)
       (simp add: js_def)
  have k: "js ''Sorry, the request to the AI timed out.'' \<noteq> []" by (simp add: js_def)
  have x: "ackText \<lparr>currentMode = js ''chat'', availableModels = [defaultEntry (js ''m'')],
         currentModelId = js ''m''\<rparr> = js ''Processing in chat mode with m...''"
    by (simp add: ackText_def js_def)
  note T = C9_relay_fallback [OF a b,
      of "js ''hi''"
         "\<lparr>currentMode = js ''chat'', availableModels = [defaultEntry (js ''m'')],
           currentModelId = js ''m''\<rparr>"
         "\<lparr>authorizedUserId = Num 7, deepSeekApiEndpoint = js ''e'', deepSeekApiKey = js ''k''\<rparr>"
         1]
  show ?thesis
    using T k by (simp add: Let_def resumedSettings_def c x)
qed

end
